theory Spec2Isabelle
  imports Complex_Main "HOL-Library.Multiset" "HOL-Library.Sublist" "HOL-Library.Char_ord"
    "HOL-Library.List_Lexorder" "HOL-Library.Option_ord"
begin

section \<open>Relations of the music streaming analytics job\<close>

text \<open>
  The job of \<^verbatim>\<open>music_analytics.py\<close> reads two CSV relations, joins them and runs six
  analyses, each written below as the list of rows its DataFrame holds. A DataFrame is a
  bag of rows whose order Spark leaves open unless an \<^verbatim>\<open>orderBy\<close> fixes it; wherever the
  engine is free to choose (the order among equal sort keys, the values of \<^verbatim>\<open>F.rand()\<close>,
  the clock) the choice is a parameter of the model, so that a theorem quantified over the
  parameter speaks about every run.

  Every column is nullable: the schemas of \<^verbatim>\<open>load_data\<close> declare the columns
  non-nullable, but Spark's file reader does not enforce that and reads an empty field as
  null. A column value is therefore an option, \<open>None\<close> for null, and comparisons follow
  SQL: a comparison with null is neither true nor false, and a filter or a join keeps a
  row only when its condition is true. Timestamps are counted in microseconds, play counts
  are natural numbers, and the quotients that Spark computes in double precision are exact
  reals.
\<close>

record song_row =
  song_id :: "string option"
  title :: "string option"
  artist :: "string option"
  genre :: "string option"
  mood :: "string option"

record log_row =
  user_id :: "string option"
  song_id :: "string option"
  timestamp :: "int option"
  duration_sec :: "int option"

text \<open>A row of \<^verbatim>\<open>enriched_logs\<close>: a log row with the song row it joined, which agree on
  \<^verbatim>\<open>song_id\<close>.\<close>

type_synonym enriched_row = "log_row \<times> song_row"

text \<open>A line of a CSV file, split into its fields; a file is the list of its lines.\<close>

type_synonym csv_line = "string list"

text \<open>What stands at the two input paths; \<open>None\<close> when the path does not exist.\<close>

record sources =
  listening_logs :: "csv_line list option"
  songs_metadata :: "csv_line list option"

subsection \<open>Conditions over nullable columns\<close>

text \<open>\<open>a == b\<close>, \<open>a.isin(xs)\<close> and \<open>~p\<close> in SQL's three-valued logic; \<open>is_true\<close> is what
  \<^verbatim>\<open>filter\<close> and \<^verbatim>\<open>join\<close> ask of a condition. A value is in a list when it equals a
  member; when it equals none and the list holds a null the answer is null, and so it is
  for a null value.\<close>

definition eq3 :: "'a option \<Rightarrow> 'a option \<Rightarrow> bool option" where
  "eq3 a b =
     (case a of None \<Rightarrow> None | Some x \<Rightarrow> (case b of None \<Rightarrow> None | Some y \<Rightarrow> Some (x = y)))"

definition isin3 :: "'a option \<Rightarrow> 'a option list \<Rightarrow> bool option" where
  "isin3 a xs =
     (case a of
        None \<Rightarrow> None
      | Some x \<Rightarrow> if Some x \<in> set xs then Some True else if None \<in> set xs then None else Some False)"

definition not3 :: "bool option \<Rightarrow> bool option" where
  "not3 p = map_option Not p"

definition is_true :: "bool option \<Rightarrow> bool" where
  "is_true p = (p = Some True)"

subsection \<open>The output directory\<close>

type_synonym path = "string list"

type_synonym favorite_row = "string option \<times> string option \<times> nat"
type_synonym avg_row = "string option \<times> real option \<times> nat"
type_synonym top_row = "string option \<times> string option \<times> string option \<times> nat"
type_synonym recommendation_row =
  "string option \<times> string option \<times> string option \<times> string option"
type_synonym loyalty_row = "string option \<times> string option \<times> real"
type_synonym night_row = "string option \<times> nat"

datatype artifact =
    FavoriteGenres "favorite_row list"
  | AvgListenTime "avg_row list"
  | TopSongs "top_row list"
  | Recommendations "recommendation_row list"
  | LoyaltyScores "loyalty_row list"
  | NightOwls "night_row list"
  | EnrichedLogs "enriched_row list"

datatype node = Dir | File artifact

type_synonym fs = "path \<rightharpoonup> node"

datatype error = MissingSource string | NotADirectory string

definition rmtree :: "path \<Rightarrow> fs \<Rightarrow> fs" where
  "rmtree p fs = (\<lambda>q. if prefix p q then None else fs q)"

definition makedirs :: "path \<Rightarrow> fs \<Rightarrow> fs" where
  "makedirs p fs = (\<lambda>q. if q \<noteq> [] \<and> prefix q p \<and> fs q = None then Some Dir else fs q)"

definition subdirs :: "string list" where
  "subdirs = [''user_favorite_genres'', ''avg_listen_time_per_song'', ''top_songs_this_week'',
     ''happy_recommendations'', ''genre_loyalty_scores'', ''night_owl_users'', ''enriched_logs'']"

text \<open>\<^verbatim>\<open>prepare_output_directory\<close>: an existing tree is removed (\<^verbatim>\<open>shutil.rmtree\<close> raises
  on a path that is a file), then the seven directories are created.\<close>

definition prepare_output_directory :: "string \<Rightarrow> fs \<Rightarrow> error + fs" where
  "prepare_output_directory base_dir fs =
     (case fs [base_dir] of
        Some (File a) \<Rightarrow> Inl (NotADirectory base_dir)
      | _ \<Rightarrow>
          Inr (foldl (\<lambda>f subdir. makedirs [base_dir, subdir] f)
                 (if fs [base_dir] \<noteq> None then rmtree [base_dir] fs else fs) subdirs))"

text \<open>\<^verbatim>\<open>df.write.mode("overwrite")\<close>: whatever stood at the location is replaced by the
  directory holding the rows written.\<close>

definition write_overwrite :: "path \<Rightarrow> artifact \<Rightarrow> fs \<Rightarrow> fs" where
  "write_overwrite p a fs = ((rmtree p fs)(p \<mapsto> Dir))(p @ [''part-00000''] \<mapsto> File a)"

subsection \<open>Reading the sources\<close>

text \<open>
  \<^verbatim>\<open>spark.read.schema(...).option("header", "true").csv(...)\<close>. The reader is given no
  \<^verbatim>\<open>mode\<close> option, so it runs in Spark's default mode (PERMISSIVE, as of Spark 3):
  \<^item> lines that are empty but for white space are skipped, and the first of the others is
    the header;
  \<^item> an empty field is null, a field the line does not have is null, and fields beyond
    the schema are ignored;
  \<^item> a field that does not convert to the type its column declares becomes null, and the
    row is kept with its other fields.
  The conversions themselves are Spark's and are parameters here: \<open>to_int\<close> for
  IntegerType and \<open>to_timestamp\<close> for \<^verbatim>\<open>F.to_timestamp\<close>, each \<open>None\<close> on a text it does
  not convert.
\<close>

definition blank_line :: "csv_line \<Rightarrow> bool" where
  "blank_line l = (length l \<le> 1 \<and> list_all (\<lambda>c. (of_char c :: nat) \<le> 32) (concat l))"

definition data_lines :: "csv_line list \<Rightarrow> csv_line list" where
  "data_lines lines = drop 1 (filter (\<lambda>l. \<not> blank_line l) lines)"

definition field :: "csv_line \<Rightarrow> nat \<Rightarrow> string option" where
  "field l i = (if i < length l \<and> l ! i \<noteq> [] then Some (l ! i) else None)"

definition log_of_line ::
  "(string \<Rightarrow> int option) \<Rightarrow> (string \<Rightarrow> int option) \<Rightarrow> csv_line \<Rightarrow> log_row" where
  "log_of_line to_timestamp to_int l =
     \<lparr>user_id = field l 0, song_id = field l 1,
      timestamp = Option.bind (field l 2) to_timestamp,
      duration_sec = Option.bind (field l 3) to_int\<rparr>"

definition song_of_line :: "csv_line \<Rightarrow> song_row" where
  "song_of_line l =
     \<lparr>song_row.song_id = field l 0, title = field l 1, artist = field l 2,
      genre = field l 3, mood = field l 4\<rparr>"

definition csv_logs ::
  "(string \<Rightarrow> int option) \<Rightarrow> (string \<Rightarrow> int option) \<Rightarrow> csv_line list \<Rightarrow> log_row list" where
  "csv_logs to_timestamp to_int lines = map (log_of_line to_timestamp to_int) (data_lines lines)"

definition csv_songs :: "csv_line list \<Rightarrow> song_row list" where
  "csv_songs lines = map song_of_line (data_lines lines)"

text \<open>\<^verbatim>\<open>logs_df.join(songs_df, on="song_id", how="inner")\<close>: null keys match nothing.\<close>

definition join_inner :: "log_row list \<Rightarrow> song_row list \<Rightarrow> enriched_row list" where
  "join_inner logs_df songs_df =
     [(l, s). l \<leftarrow> logs_df, s \<leftarrow> songs_df,
              is_true (eq3 (log_row.song_id l) (song_row.song_id s))]"

definition load_data ::
  "(string \<Rightarrow> int option) \<Rightarrow> (string \<Rightarrow> int option) \<Rightarrow> sources \<Rightarrow>
     error + (log_row list \<times> song_row list \<times> enriched_row list)" where
  "load_data to_timestamp to_int src =
     (case listening_logs src of
        None \<Rightarrow> Inl (MissingSource ''data/listening_logs.csv'')
      | Some log_lines \<Rightarrow>
          (case songs_metadata src of
             None \<Rightarrow> Inl (MissingSource ''data/songs_metadata.csv'')
           | Some song_lines \<Rightarrow>
               (let logs_df = csv_logs to_timestamp to_int log_lines;
                    songs_df = csv_songs song_lines;
                    enriched_logs = join_inner logs_df songs_df
                in Inr (logs_df, songs_df, enriched_logs))))"

subsection \<open>DataFrame operators\<close>

text \<open>\<^verbatim>\<open>groupBy(key).count()\<close>: one row per distinct key, with the number of rows that
  carry it. Null is a key like any other.\<close>

definition groupBy_count :: "('r \<Rightarrow> 'k) \<Rightarrow> 'r list \<Rightarrow> ('k \<times> nat) list" where
  "groupBy_count key rows =
     map (\<lambda>k. (k, length (filter (\<lambda>r. key r = k) rows))) (remdups (map key rows))"

text \<open>\<^verbatim>\<open>orderBy(F.desc(key))\<close>. Rows with equal keys come out in an order of the engine's
  choosing: they are ranked by \<open>tie\<close> first, and the sort by the key is stable.\<close>

definition orderBy_desc ::
  "('r \<Rightarrow> nat) \<Rightarrow> ('r \<Rightarrow> 'k::{linorder, uminus}) \<Rightarrow> 'r list \<Rightarrow> 'r list" where
  "orderBy_desc tie key rows = sort_key (\<lambda>r. - key r) (sort_key tie rows)"

text \<open>\<^verbatim>\<open>orderBy(F.rand())\<close>: row number \<open>j\<close> draws the value \<open>rnd j\<close>.\<close>

definition orderBy_rand :: "(nat \<Rightarrow> real) \<Rightarrow> 'r list \<Rightarrow> 'r list" where
  "orderBy_rand rnd rows = map snd (sort_key fst (zip (map rnd [0..<length rows]) rows))"

text \<open>\<^verbatim>\<open>withColumn("rank", F.row_number().over(Window.partitionBy(part).orderBy(...)))\<close>:
  every partition is ordered by \<open>ord\<close> and numbered from 1.\<close>

definition row_number_over ::
  "('r \<Rightarrow> 'p) \<Rightarrow> ('r list \<Rightarrow> 'r list) \<Rightarrow> 'r list \<Rightarrow> ('r \<times> nat) list" where
  "row_number_over part ord rows =
     concat (map (\<lambda>p. let grp = ord (filter (\<lambda>r. part r = p) rows)
                      in zip grp [1..<Suc (length grp)])
               (remdups (map part rows)))"

text \<open>\<^verbatim>\<open>withColumn(..., F.max(m).over(Window.partitionBy(part)))\<close>.\<close>

definition max_over :: "('r \<Rightarrow> 'p) \<Rightarrow> ('r \<Rightarrow> nat) \<Rightarrow> 'r list \<Rightarrow> ('r \<times> nat) list" where
  "max_over part m rows =
     map (\<lambda>r. (r, Max (set (map m (filter (\<lambda>r'. part r' = part r) rows))))) rows"

text \<open>\<^verbatim>\<open>F.avg\<close> skips nulls and is null over no values.\<close>

definition avg :: "int option list \<Rightarrow> real option" where
  "avg vs =
     (let xs = [the v. v \<leftarrow> vs, v \<noteq> None]
      in if xs = [] then None else Some (real_of_int (sum_list xs) / real (length xs)))"

subsection \<open>The six analyses\<close>

definition user_genre_counts :: "enriched_row list \<Rightarrow> favorite_row list" where
  "user_genre_counts enriched_logs =
     map (\<lambda>((u, g), c). (u, g, c))
       (groupBy_count (\<lambda>e. (user_id (fst e), genre (snd e))) enriched_logs)"

text \<open>The final \<^verbatim>\<open>orderBy("user_id")\<close> is ascending, nulls first.\<close>

definition user_favorite_genres ::
  "(favorite_row \<Rightarrow> nat) \<Rightarrow> enriched_row list \<Rightarrow> favorite_row list" where
  "user_favorite_genres tie enriched_logs =
     (let window_spec = (fst, orderBy_desc tie (\<lambda>r. int (snd (snd r))))
      in sort_key fst
           (map fst
              (filter (\<lambda>(r, rank). rank = 1)
                 (row_number_over (fst window_spec) (snd window_spec)
                    (user_genre_counts enriched_logs)))))"

definition task1_user_favorite_genres ::
  "(favorite_row \<Rightarrow> nat) \<Rightarrow> enriched_row list \<Rightarrow> fs \<Rightarrow> fs \<times> favorite_row list" where
  "task1_user_favorite_genres tie enriched_logs fs =
     (let df = user_favorite_genres tie enriched_logs
      in (write_overwrite [''output'', ''user_favorite_genres''] (FavoriteGenres df) fs, df))"

definition avg_listen_time :: "(avg_row \<Rightarrow> nat) \<Rightarrow> log_row list \<Rightarrow> avg_row list" where
  "avg_listen_time tie logs_df =
     orderBy_desc tie (\<lambda>r. int (snd (snd r)))
       (map (\<lambda>k. (k, avg (map duration_sec (filter (\<lambda>l. log_row.song_id l = k) logs_df)),
                     length (filter (\<lambda>l. log_row.song_id l = k) logs_df)))
          (remdups (map log_row.song_id logs_df)))"

definition task2_avg_listen_time_per_song ::
  "(avg_row \<Rightarrow> nat) \<Rightarrow> log_row list \<Rightarrow> fs \<Rightarrow> fs \<times> avg_row list" where
  "task2_avg_listen_time_per_song tie logs_df fs =
     (let df = avg_listen_time tie logs_df
      in (write_overwrite [''output'', ''avg_listen_time_per_song''] (AvgListenTime df) fs, df))"

definition timedelta_days :: "int \<Rightarrow> int" where
  "timedelta_days d = d * 86400000000"

text \<open>\<open>current_date\<close> is the value of \<^verbatim>\<open>datetime.now()\<close>. A null timestamp fails the
  comparison, so its row is dropped.\<close>

definition this_week :: "int \<Rightarrow> enriched_row list \<Rightarrow> enriched_row list" where
  "this_week current_date enriched_logs =
     (let one_week_ago = current_date - timedelta_days 7
      in filter (\<lambda>e. case timestamp (fst e) of None \<Rightarrow> False | Some t \<Rightarrow> t \<ge> one_week_ago)
           enriched_logs)"

definition song_play_counts :: "enriched_row list \<Rightarrow> top_row list" where
  "song_play_counts rows =
     map (\<lambda>((s, t, a), c). (s, t, a, c))
       (groupBy_count (\<lambda>e. (log_row.song_id (fst e), title (snd e), artist (snd e))) rows)"

definition top_songs :: "int \<Rightarrow> (top_row \<Rightarrow> nat) \<Rightarrow> enriched_row list \<Rightarrow> top_row list" where
  "top_songs current_date tie enriched_logs =
     take 10 (orderBy_desc tie (\<lambda>r. int (snd (snd (snd r))))
                (song_play_counts (this_week current_date enriched_logs)))"

definition task3_top_songs_this_week ::
  "int \<Rightarrow> (top_row \<Rightarrow> nat) \<Rightarrow> enriched_row list \<Rightarrow> song_row list \<Rightarrow> fs \<Rightarrow> fs \<times> top_row list" where
  "task3_top_songs_this_week current_date tie enriched_logs songs_df fs =
     (let df = top_songs current_date tie enriched_logs
      in (write_overwrite [''output'', ''top_songs_this_week''] (TopSongs df) fs, df))"

definition mood_counts :: "enriched_row list \<Rightarrow> (string option \<times> string option \<times> nat) list" where
  "mood_counts enriched_logs =
     map (\<lambda>((u, m), c). (u, m, c))
       (groupBy_count (\<lambda>e. (user_id (fst e), mood (snd e))) enriched_logs)"

text \<open>The collected \<^verbatim>\<open>user_id\<close> of every listener whose first-ranked mood is \<open>Sad\<close>; a null
  \<^verbatim>\<open>user_id\<close> is collected as Python's \<^verbatim>\<open>None\<close>.\<close>

definition sad_song_listeners ::
  "(string option \<times> string option \<times> nat \<Rightarrow> nat) \<Rightarrow> enriched_row list \<Rightarrow> string option list" where
  "sad_song_listeners tie enriched_logs =
     (let window_spec = (fst, orderBy_desc tie (\<lambda>r. int (snd (snd r))))
      in map (\<lambda>(r, rank). fst r)
           (filter (\<lambda>(r, rank). rank = 1 \<and> fst (snd r) = Some ''Sad'')
              (row_number_over (fst window_spec) (snd window_spec) (mood_counts enriched_logs))))"

text \<open>The body of the loop over the collected listeners, for the listener \<open>uid\<close>:
  \<^verbatim>\<open>user_songs.filter(F.col("user_id") == user_id)\<close>, then
  \<^verbatim>\<open>happy_songs.filter(~F.col("song_id").isin(user_listened_songs))\<close>, a random order,
  three rows, and the listener as a literal column.\<close>

definition user_recommendations ::
  "(nat \<Rightarrow> real) \<Rightarrow> (string option \<times> string option) list \<Rightarrow> song_row list \<Rightarrow> string option \<Rightarrow>
     recommendation_row list" where
  "user_recommendations rnd user_songs happy_songs uid =
     (let user_listened_songs = map snd (filter (\<lambda>p. is_true (eq3 (fst p) uid)) user_songs)
      in map (\<lambda>s. (uid, song_row.song_id s, title s, artist s))
           (take 3 (orderBy_rand rnd
              (filter (\<lambda>s. is_true (not3 (isin3 (song_row.song_id s) user_listened_songs)))
                 happy_songs))))"

definition final_recommendations ::
  "(string option \<times> string option \<times> nat \<Rightarrow> nat) \<Rightarrow> (string option \<Rightarrow> nat \<Rightarrow> real) \<Rightarrow>
     enriched_row list \<Rightarrow> song_row list \<Rightarrow> recommendation_row list" where
  "final_recommendations tie rnd enriched_logs songs_df =
     (let user_songs = remdups (map (\<lambda>e. (user_id (fst e), log_row.song_id (fst e))) enriched_logs);
          happy_songs = filter (\<lambda>s. mood s = Some ''Happy'') songs_df;
          recommendations =
            map (\<lambda>uid. user_recommendations (rnd uid) user_songs happy_songs uid)
              (sad_song_listeners tie enriched_logs)
      in case recommendations of
           [] \<Rightarrow> []
         | r # rs \<Rightarrow> foldl (@) r rs)"

definition task4_happy_song_recommendations ::
  "(string option \<times> string option \<times> nat \<Rightarrow> nat) \<Rightarrow> (string option \<Rightarrow> nat \<Rightarrow> real) \<Rightarrow>
     enriched_row list \<Rightarrow> song_row list \<Rightarrow> fs \<Rightarrow> fs \<times> recommendation_row list" where
  "task4_happy_song_recommendations tie rnd enriched_logs songs_df fs =
     (let df = final_recommendations tie rnd enriched_logs songs_df
      in (write_overwrite [''output'', ''happy_recommendations''] (Recommendations df) fs, df))"

definition user_genre_plays :: "enriched_row list \<Rightarrow> (string option \<times> string option \<times> nat) list" where
  "user_genre_plays enriched_logs =
     map (\<lambda>((u, g), c). (u, g, c))
       (groupBy_count (\<lambda>e. (user_id (fst e), genre (snd e))) enriched_logs)"

definition user_max_genre :: "enriched_row list \<Rightarrow> (string option \<times> string option \<times> nat) list" where
  "user_max_genre enriched_logs =
     map (\<lambda>(r, max_genre_plays). (fst r, fst (snd r), max_genre_plays))
       (filter (\<lambda>(r, max_genre_plays). snd (snd r) = max_genre_plays)
          (max_over fst (\<lambda>r. snd (snd r)) (user_genre_plays enriched_logs)))"

text \<open>\<^verbatim>\<open>user_max_genre.join(user_total_plays, on="user_id")\<close> is an inner join, so the
  rows of a null \<^verbatim>\<open>user_id\<close> match nothing.\<close>

definition loyalty_scores :: "(loyalty_row \<Rightarrow> nat) \<Rightarrow> enriched_row list \<Rightarrow> loyalty_row list" where
  "loyalty_scores tie enriched_logs =
     (let user_total_plays = groupBy_count (\<lambda>e. user_id (fst e)) enriched_logs;
          joined = [(u, g, real max_genre_plays / real total_plays).
                      (u, g, max_genre_plays) \<leftarrow> user_max_genre enriched_logs,
                      (u', total_plays) \<leftarrow> user_total_plays, is_true (eq3 u u')]
      in orderBy_desc tie (\<lambda>r. snd (snd r))
           (filter (\<lambda>r. snd (snd r) > 0.8) joined))"

definition task5_genre_loyalty_scores ::
  "(loyalty_row \<Rightarrow> nat) \<Rightarrow> enriched_row list \<Rightarrow> fs \<Rightarrow> fs \<times> loyalty_row list" where
  "task5_genre_loyalty_scores tie enriched_logs fs =
     (let df = loyalty_scores tie enriched_logs
      in (write_overwrite [''output'', ''genre_loyalty_scores''] (LoyaltyScores df) fs, df))"

text \<open>\<^verbatim>\<open>F.hour\<close> is Spark's (it depends on the session time zone): a parameter.\<close>

definition night_owl_users ::
  "(int \<Rightarrow> int) \<Rightarrow> (night_row \<Rightarrow> nat) \<Rightarrow> log_row list \<Rightarrow> night_row list" where
  "night_owl_users hour tie logs_df =
     orderBy_desc tie (\<lambda>r. int (snd r))
       (groupBy_count user_id
          (filter (\<lambda>l. case timestamp l of None \<Rightarrow> False | Some t \<Rightarrow> hour t \<ge> 0 \<and> hour t < 5)
             logs_df))"

definition task6_night_owl_users ::
  "(int \<Rightarrow> int) \<Rightarrow> (night_row \<Rightarrow> nat) \<Rightarrow> log_row list \<Rightarrow> fs \<Rightarrow> fs \<times> night_row list" where
  "task6_night_owl_users hour tie logs_df fs =
     (let df = night_owl_users hour tie logs_df
      in (write_overwrite [''output'', ''night_owl_users''] (NightOwls df) fs, df))"

definition save_enriched_logs :: "enriched_row list \<Rightarrow> fs \<Rightarrow> fs" where
  "save_enriched_logs enriched_logs fs =
     write_overwrite [''output'', ''enriched_logs''] (EnrichedLogs enriched_logs) fs"

subsection \<open>The run\<close>

text \<open>What a run does not decide itself: the clock, Spark's built-in conversions, the order
  among equal sort keys in each analysis, and the random numbers.\<close>

record env =
  now :: int
  to_timestamp :: "string \<Rightarrow> int option"
  to_int :: "string \<Rightarrow> int option"
  hour :: "int \<Rightarrow> int"
  tie_genre :: "favorite_row \<Rightarrow> nat"
  tie_avg :: "avg_row \<Rightarrow> nat"
  tie_top :: "top_row \<Rightarrow> nat"
  tie_mood :: "string option \<times> string option \<times> nat \<Rightarrow> nat"
  rand :: "string option \<Rightarrow> nat \<Rightarrow> real"
  tie_loyalty :: "loyalty_row \<Rightarrow> nat"
  tie_night :: "night_row \<Rightarrow> nat"

text \<open>The script's main block. A run that raises stops there: the result is the file
  system as the run left it, with the error.\<close>

definition main :: "env \<Rightarrow> sources \<Rightarrow> fs \<Rightarrow> fs \<times> (error + unit)" where
  "main ev src fs0 =
     (case prepare_output_directory ''output'' fs0 of
        Inl e \<Rightarrow> (fs0, Inl e)
      | Inr fs1 \<Rightarrow>
          (case load_data (to_timestamp ev) (to_int ev) src of
             Inl e \<Rightarrow> (fs1, Inl e)
           | Inr (logs_df, songs_df, enriched_logs) \<Rightarrow>
               (let fs2 = fst (task1_user_favorite_genres (tie_genre ev) enriched_logs fs1);
                    fs3 = fst (task2_avg_listen_time_per_song (tie_avg ev) logs_df fs2);
                    fs4 = fst (task3_top_songs_this_week (now ev) (tie_top ev) enriched_logs songs_df fs3);
                    fs5 = fst (task4_happy_song_recommendations (tie_mood ev) (rand ev)
                                 enriched_logs songs_df fs4);
                    fs6 = fst (task5_genre_loyalty_scores (tie_loyalty ev) enriched_logs fs5);
                    fs7 = fst (task6_night_owl_users (hour ev) (tie_night ev) logs_df fs6);
                    fs8 = save_enriched_logs enriched_logs fs7
                in (fs8, Inr ()))))"

subsection \<open>Play counts, counted on the enriched relation\<close>

text \<open>The quantities the analyses are described with, counted directly: the plays of a
  user, the plays of a user in a genre, the largest of a user's per-genre plays, and the
  plays of a song (with its title and artist) among the events not older than seven days
  before a reference time.\<close>

definition total_plays_of :: "enriched_row list \<Rightarrow> string option \<Rightarrow> nat" where
  "total_plays_of enriched_logs u = length (filter (\<lambda>e. user_id (fst e) = u) enriched_logs)"

definition genre_plays_of :: "enriched_row list \<Rightarrow> string option \<Rightarrow> string option \<Rightarrow> nat" where
  "genre_plays_of enriched_logs u g =
     length (filter (\<lambda>e. user_id (fst e) = u \<and> genre (snd e) = g) enriched_logs)"

definition max_genre_plays_of :: "enriched_row list \<Rightarrow> string option \<Rightarrow> nat" where
  "max_genre_plays_of enriched_logs u =
     Max (set (map (\<lambda>e. genre_plays_of enriched_logs u (genre (snd e)))
                 (filter (\<lambda>e. user_id (fst e) = u) enriched_logs)))"





subsection \<open>A small batch\<close>

text \<open>Two listeners and three songs, in the shape of the scenario the specification gives:
  \<open>U1\<close> plays the sad song \<open>S002\<close> twice and the unknown song \<open>S999\<close> once; \<open>U2\<close> plays
  the happy songs \<open>S001\<close> (twelve days before the run) and \<open>S003\<close> (two days before the
  run, and again three days after it, that time with a duration that is not a number).
  The run takes place on 2025-03-22 at 00:00:00. The two conversions are given by their
  values on the texts of the batch.\<close>

definition demo_log_lines :: "csv_line list" where
  "demo_log_lines =
     [[''user_id'', ''song_id'', ''timestamp'', ''duration_sec''],
      [''U1'', ''S002'', ''2025-03-20 10:00:00'', ''200''],
      [''U1'', ''S002'', ''2025-03-21 10:00:00'', ''210''],
      [''U1'', ''S999'', ''2025-03-21 10:00:00'', ''180''],
      [''U2'', ''S001'', ''2025-03-10 02:30:00'', ''95''],
      [''U2'', ''S003'', ''2025-03-20 10:00:00'', ''240''],
      [''U2'', ''S003'', ''2025-03-25 08:00:00'', ''abc'']]"

definition demo_song_lines :: "csv_line list" where
  "demo_song_lines =
     [[''song_id'', ''title'', ''artist'', ''genre'', ''mood''],
      [''S001'', ''A'', ''X'', ''Pop'', ''Happy''],
      [''S002'', ''B'', ''Y'', ''Pop'', ''Sad''],
      [''S003'', ''C'', ''Z'', ''Rock'', ''Happy'']]"


definition demo_to_timestamp :: "string \<Rightarrow> int option" where
  "demo_to_timestamp =
     map_of [(''2025-03-10 02:30:00'', 1741573800000000),
             (''2025-03-20 10:00:00'', 1742464800000000),
             (''2025-03-21 10:00:00'', 1742551200000000),
             (''2025-03-25 08:00:00'', 1742889600000000)]"

definition demo_to_int :: "string \<Rightarrow> int option" where
  "demo_to_int = map_of [(''95'', 95), (''180'', 180), (''200'', 200), (''210'', 210), (''240'', 240)]"

definition demo_now :: int where
  "demo_now = 1742601600000000"

definition demo_logs :: "log_row list" where
  "demo_logs =
     [\<lparr>user_id = Some ''U1'', song_id = Some ''S002'', timestamp = Some 1742464800000000,
        duration_sec = Some 200\<rparr>,
      \<lparr>user_id = Some ''U1'', song_id = Some ''S002'', timestamp = Some 1742551200000000,
        duration_sec = Some 210\<rparr>,
      \<lparr>user_id = Some ''U1'', song_id = Some ''S999'', timestamp = Some 1742551200000000,
        duration_sec = Some 180\<rparr>,
      \<lparr>user_id = Some ''U2'', song_id = Some ''S001'', timestamp = Some 1741573800000000,
        duration_sec = Some 95\<rparr>,
      \<lparr>user_id = Some ''U2'', song_id = Some ''S003'', timestamp = Some 1742464800000000,
        duration_sec = Some 240\<rparr>,
      \<lparr>user_id = Some ''U2'', song_id = Some ''S003'', timestamp = Some 1742889600000000,
        duration_sec = None\<rparr>]"

definition demo_songs :: "song_row list" where
  "demo_songs =
     [\<lparr>song_row.song_id = Some ''S001'', title = Some ''A'', artist = Some ''X'',
        genre = Some ''Pop'', mood = Some ''Happy''\<rparr>,
      \<lparr>song_row.song_id = Some ''S002'', title = Some ''B'', artist = Some ''Y'',
        genre = Some ''Pop'', mood = Some ''Sad''\<rparr>,
      \<lparr>song_row.song_id = Some ''S003'', title = Some ''C'', artist = Some ''Z'',
        genre = Some ''Rock'', mood = Some ''Happy''\<rparr>]"

definition demo_enriched :: "enriched_row list" where
  "demo_enriched = [(demo_logs ! 0, demo_songs ! 1), (demo_logs ! 1, demo_songs ! 1),
     (demo_logs ! 3, demo_songs ! 0), (demo_logs ! 4, demo_songs ! 2), (demo_logs ! 5, demo_songs ! 2)]"

text \<open>The two plays of \<open>U2\<close> in different genres, alone: a tie for the top genre.\<close>

definition demo_tied :: "enriched_row list" where
  "demo_tied = [demo_enriched ! 2, demo_enriched ! 3]"

text \<open>The run of the small batch: ties are left in the order of arrival, every random
  number is 0, and hours are read in UTC.\<close>

definition demo_env :: env where
  "demo_env =
     \<lparr>now = demo_now, to_timestamp = demo_to_timestamp, to_int = demo_to_int,
      hour = (\<lambda>t. (t div 3600000000) mod 24),
      tie_genre = (\<lambda>_. 0), tie_avg = (\<lambda>_. 0), tie_top = (\<lambda>_. 0), tie_mood = (\<lambda>_. 0),
      rand = (\<lambda>_ _. 0), tie_loyalty = (\<lambda>_. 0), tie_night = (\<lambda>_. 0)\<rparr>"

text \<open>The listening logs are missing; the logs hold the header line only.\<close>

definition missing_sources :: sources where
  "missing_sources = \<lparr>listening_logs = None, songs_metadata = Some demo_song_lines\<rparr>"

definition empty_sources :: sources where
  "empty_sources = \<lparr>listening_logs = Some (take 1 demo_log_lines), songs_metadata = Some demo_song_lines\<rparr>"

text \<open>What an earlier run left behind: the favourite genres of \<open>U1\<close>.\<close>

definition prior_part :: path where
  "prior_part = [''output'', ''user_favorite_genres'', ''part-00000'']"

definition prior_fs :: fs where
  "prior_fs =
     [[''output''] \<mapsto> Dir, [''output'', ''user_favorite_genres''] \<mapsto> Dir,
      prior_part \<mapsto> File (FavoriteGenres [(Some ''U1'', Some ''Pop'', 2)])]"

text \<open>Logs whose \<^verbatim>\<open>user_id\<close> field is empty: a listener without a name plays the sad song
  \<open>S002\<close> twice and the happy song \<open>S001\<close> once.\<close>

definition nameless_log_lines :: "csv_line list" where
  "nameless_log_lines =
     [[''user_id'', ''song_id'', ''timestamp'', ''duration_sec''],
      [[], ''S002'', ''2025-03-20 10:00:00'', ''200''],
      [[], ''S002'', ''2025-03-21 10:00:00'', ''210''],
      [[], ''S001'', ''2025-03-20 10:00:00'', ''240'']]"

definition nameless_sources :: sources where
  "nameless_sources =
     \<lparr>listening_logs = Some nameless_log_lines, songs_metadata = Some demo_song_lines\<rparr>"

definition nameless_logs :: "log_row list" where
  "nameless_logs =
     [\<lparr>user_id = None, song_id = Some ''S002'', timestamp = Some 1742464800000000,
        duration_sec = Some 200\<rparr>,
      \<lparr>user_id = None, song_id = Some ''S002'', timestamp = Some 1742551200000000,
        duration_sec = Some 210\<rparr>,
      \<lparr>user_id = None, song_id = Some ''S001'', timestamp = Some 1742464800000000,
        duration_sec = Some 240\<rparr>]"

definition nameless_enriched :: "enriched_row list" where
  "nameless_enriched = [(nameless_logs ! 0, demo_songs ! 1), (nameless_logs ! 1, demo_songs ! 1),
     (nameless_logs ! 2, demo_songs ! 0)]"

text \<open>Sources with an empty \<^verbatim>\<open>song_id\<close> field on both sides, a blank line, and a play of
  the unknown song \<open>S999\<close>.\<close>

definition keyless_log_lines :: "csv_line list" where
  "keyless_log_lines =
     [[''user_id'', ''song_id'', ''timestamp'', ''duration_sec''],
      [''U1'', [], ''2025-03-20 10:00:00'', ''200''],
      [],
      [''U1'', ''S001'', ''2025-03-20 10:00:00'', ''210''],
      [''U1'', ''S999'', ''2025-03-21 10:00:00'', ''180'']]"

definition keyless_song_lines :: "csv_line list" where
  "keyless_song_lines =
     [[''song_id'', ''title'', ''artist'', ''genre'', ''mood''],
      [[], ''D'', ''W'', ''Pop'', ''Happy''],
      [''S001'', ''A'', ''X'', ''Pop'', ''Happy'']]"

definition keyless_sources :: sources where
  "keyless_sources =
     \<lparr>listening_logs = Some keyless_log_lines, songs_metadata = Some keyless_song_lines\<rparr>"

definition keyless_logs :: "log_row list" where
  "keyless_logs =
     [\<lparr>user_id = Some ''U1'', song_id = None, timestamp = Some 1742464800000000,
        duration_sec = Some 200\<rparr>,
      \<lparr>user_id = Some ''U1'', song_id = Some ''S001'', timestamp = Some 1742464800000000,
        duration_sec = Some 210\<rparr>,
      \<lparr>user_id = Some ''U1'', song_id = Some ''S999'', timestamp = Some 1742551200000000,
        duration_sec = Some 180\<rparr>]"

definition keyless_songs :: "song_row list" where
  "keyless_songs =
     [\<lparr>song_row.song_id = None, title = Some ''D'', artist = Some ''W'',
        genre = Some ''Pop'', mood = Some ''Happy''\<rparr>,
      \<lparr>song_row.song_id = Some ''S001'', title = Some ''A'', artist = Some ''X'',
        genre = Some ''Pop'', mood = Some ''Happy''\<rparr>]"



section \<open>Conditions and the join\<close>

lemma is_true_eq3: "is_true (eq3 a b) \<longleftrightarrow> a \<noteq> None \<and> a = b"
  by (auto simp: is_true_def eq3_def split: option.splits)

lemma is_true_not_isin3:
  "is_true (not3 (isin3 a xs)) \<longleftrightarrow> a \<noteq> None \<and> a \<notin> set xs \<and> None \<notin> set xs"
  by (auto simp: is_true_def not3_def isin3_def split: option.splits)

lemma join_inner_Nil: "join_inner [] songs_df = []"
  by (simp add: join_inner_def)

lemma join_inner_filter:
  "join_inner logs_df songs_df =
     concat (map (\<lambda>l. map (Pair l)
                    (filter (\<lambda>s. log_row.song_id l \<noteq> None \<and> log_row.song_id l = song_row.song_id s)
                       songs_df))
               logs_df)"
proof -
  have h: "\<And>l. concat (map (\<lambda>s. if is_true (eq3 (log_row.song_id l) (song_row.song_id s))
                                  then [(l, s)] else []) songs_df)
      = map (Pair l) (filter (\<lambda>s. log_row.song_id l \<noteq> None \<and> log_row.song_id l = song_row.song_id s)
          songs_df)"
    by (induction songs_df) (auto simp: is_true_eq3)
  show ?thesis by (simp add: join_inner_def h)
qed

lemma set_join_inner:
  "set (join_inner logs_df songs_df) =
     {(l, s). l \<in> set logs_df \<and> s \<in> set songs_df \<and> log_row.song_id l \<noteq> None \<and>
        log_row.song_id l = song_row.song_id s}"
  by (auto simp: join_inner_def is_true_eq3)

lemma unique_key_matches:
  "distinct (filter (\<lambda>k. k \<noteq> None) (map key xs)) \<Longrightarrow> k \<noteq> None \<Longrightarrow>
   length (filter (\<lambda>x. k = key x) xs) = (if k \<in> key ` set xs then 1 else 0)"
proof (induction xs)
  case Nil
  then show ?case by simp
next
  case (Cons x xs)
  then show ?case by (auto simp: image_iff split: if_splits)
qed

lemma length_join_inner:
  "distinct (filter (\<lambda>k. k \<noteq> None) (map song_row.song_id songs_df)) \<Longrightarrow>
   length (join_inner logs_df songs_df) =
     length (filter (\<lambda>l. log_row.song_id l \<noteq> None \<and>
                        log_row.song_id l \<in> song_row.song_id ` set songs_df) logs_df)"
proof (induction logs_df)
  case Nil
  then show ?case by (simp add: join_inner_Nil)
next
  case (Cons l ls)
  have "length (filter (\<lambda>s. log_row.song_id l \<noteq> None \<and> log_row.song_id l = song_row.song_id s) songs_df)
      = (if log_row.song_id l \<noteq> None \<and> log_row.song_id l \<in> song_row.song_id ` set songs_df
         then 1 else 0)"
  proof (cases "log_row.song_id l = None")
    case True
    then show ?thesis by simp
  next
    case False
    with unique_key_matches [OF Cons.prems False] show ?thesis by simp
  qed
  with Cons show ?case by (simp add: join_inner_filter)
qed

lemma load_data_enriched:
  "load_data to_ts to_i src = Inr (logs_df, songs_df, enriched_logs) \<Longrightarrow>
   enriched_logs = join_inner logs_df songs_df"
  by (auto simp: load_data_def Let_def split: option.splits)


lemma load_data_keyless:
  "load_data demo_to_timestamp demo_to_int keyless_sources =
     Inr (keyless_logs, keyless_songs, [(keyless_logs ! 1, keyless_songs ! 1)])"
  by code_simp

lemma load_data_nameless:
  "load_data demo_to_timestamp demo_to_int nameless_sources =
     Inr (nameless_logs, demo_songs, nameless_enriched)"
  by code_simp

text \<open>
  C3 (join cardinality). The keys of the songs relation are its \<^verbatim>\<open>song_id\<close> values that
  are not null. When no key occurs twice, the enriched relation that \<^verbatim>\<open>load_data\<close> returns
  has exactly as many rows as there are log rows whose \<^verbatim>\<open>song_id\<close> is a key; a log row
  whose \<^verbatim>\<open>song_id\<close> is null or absent from the songs occurs in no enriched row, and a
  song whose \<^verbatim>\<open>song_id\<close> is null or that no log row references occurs in no enriched row.
\<close>

theorem join_cardinality:
  assumes "load_data to_ts to_i src = Inr (logs_df, songs_df, enriched_logs)"
    and "distinct (filter (\<lambda>k. k \<noteq> None) (map song_row.song_id songs_df))"
  shows "length enriched_logs =
           length (filter (\<lambda>l. log_row.song_id l \<noteq> None \<and>
                              log_row.song_id l \<in> song_row.song_id ` set songs_df) logs_df)
         \<and> (\<forall>l. log_row.song_id l = None \<or> log_row.song_id l \<notin> song_row.song_id ` set songs_df \<longrightarrow>
                l \<notin> fst ` set enriched_logs)
         \<and> (\<forall>s. song_row.song_id s = None \<or>
                  (\<forall>l \<in> set logs_df. log_row.song_id l \<noteq> song_row.song_id s) \<longrightarrow>
                s \<notin> snd ` set enriched_logs)"
proof -
  have e: "enriched_logs = join_inner logs_df songs_df"
    using assms(1) by (rule load_data_enriched)
  have a: "length enriched_logs =
           length (filter (\<lambda>l. log_row.song_id l \<noteq> None \<and>
                              log_row.song_id l \<in> song_row.song_id ` set songs_df) logs_df)"
    unfolding e using assms(2) by (rule length_join_inner)
  have b: "\<forall>l. log_row.song_id l = None \<or> log_row.song_id l \<notin> song_row.song_id ` set songs_df \<longrightarrow>
                l \<notin> fst ` set enriched_logs"
    unfolding e by (auto simp: set_join_inner)
  have c: "\<forall>s. song_row.song_id s = None \<or>
                  (\<forall>l \<in> set logs_df. log_row.song_id l \<noteq> song_row.song_id s) \<longrightarrow>
                s \<notin> snd ` set enriched_logs"
    unfolding e by (auto simp: set_join_inner)
  from a b c show ?thesis by (intro conjI)
qed

theorem join_cardinality_witness:
  "load_data demo_to_timestamp demo_to_int keyless_sources =
     Inr (keyless_logs, keyless_songs, [(keyless_logs ! 1, keyless_songs ! 1)])
   \<and> distinct (filter (\<lambda>k. k \<noteq> None) (map song_row.song_id keyless_songs))
   \<and> length (filter (\<lambda>l. log_row.song_id l \<noteq> None \<and>
                      log_row.song_id l \<in> song_row.song_id ` set keyless_songs) keyless_logs) = 1
   \<and> log_row.song_id (keyless_logs ! 0) = None
   \<and> keyless_logs ! 0 \<notin> fst ` set [(keyless_logs ! 1, keyless_songs ! 1)]
   \<and> log_row.song_id (keyless_logs ! 2) = Some ''S999''
   \<and> keyless_logs ! 2 \<notin> fst ` set [(keyless_logs ! 1, keyless_songs ! 1)]"
proof -
  have d: "distinct (filter (\<lambda>k. k \<noteq> None) (map song_row.song_id keyless_songs))"
    by (simp add: keyless_songs_def)
  note j = join_cardinality [OF load_data_keyless d]
  from j have n: "length (filter (\<lambda>l. log_row.song_id l \<noteq> None \<and>
      log_row.song_id l \<in> song_row.song_id ` set keyless_songs) keyless_logs) = 1"
    by simp
  have o: "log_row.song_id (keyless_logs ! 0) = None"
    by (simp add: keyless_logs_def)
  have p: "log_row.song_id (keyless_logs ! 2) = Some ''S999''"
    by (simp add: keyless_logs_def)
  have q: "log_row.song_id (keyless_logs ! 2) \<notin> song_row.song_id ` set keyless_songs"
    by (simp add: keyless_logs_def keyless_songs_def)
  from j have r: "\<forall>l. log_row.song_id l = None \<or> log_row.song_id l \<notin> song_row.song_id ` set keyless_songs \<longrightarrow>
      l \<notin> fst ` set [(keyless_logs ! 1, keyless_songs ! 1)]"
    by (elim conjE)
  from r o have a: "keyless_logs ! 0 \<notin> fst ` set [(keyless_logs ! 1, keyless_songs ! 1)]"
    by blast
  from r q have b: "keyless_logs ! 2 \<notin> fst ` set [(keyless_logs ! 1, keyless_songs ! 1)]"
    by blast
  from load_data_keyless d n o a p b show ?thesis by (intro conjI)
qed

section \<open>Ordering, grouping and numbering\<close>

lemma set_orderBy_desc: "set (orderBy_desc tie key rows) = set rows"
  by (simp add: orderBy_desc_def)






lemma groupBy_count_keys: "map fst (groupBy_count key rows) = remdups (map key rows)"
  by (simp add: groupBy_count_def comp_def)

lemma set_groupBy_count:
  "set (groupBy_count key rows) =
     {(k, c). k \<in> key ` set rows \<and> c = length (filter (\<lambda>r. key r = k) rows)}"
  by (auto simp: groupBy_count_def)

lemma numbered_from_zip:
  "filter (\<lambda>(r, rank). rank = n) (zip g [n..<n + length g]) =
     (case g of [] \<Rightarrow> [] | x # xs \<Rightarrow> [(x, n)])"
proof (cases g)
  case Nil
  then show ?thesis by simp
next
  case (Cons x xs)
  have u: "[n..<n + length (x # xs)] = n # [Suc n..<Suc n + length xs]"
    by (simp add: upt_rec)
  define zs where "zs = zip xs [Suc n..<Suc n + length xs]"
  have "\<forall>p \<in> set zs. snd p \<noteq> n"
    unfolding zs_def by (auto dest: set_zip_rightD simp del: upt_Suc)
  then have e: "filter (\<lambda>(r, rank). rank = n) zs = []"
    by (auto simp: filter_empty_conv)
  show ?thesis
    unfolding Cons u list.case zip_Cons_Cons zs_def [symmetric] using e by simp
qed

lemma rank_one_zip:
  assumes "g \<noteq> []"
  shows "filter (\<lambda>(r, rank). rank = 1) (zip g [1..<Suc (length g)]) = [(hd g, 1)]"
proof -
  have "[1..<Suc (length g)] = [1..<1 + length g]" by simp
  then show ?thesis
    using numbered_from_zip [of 1 g] assms by (cases g) simp_all
qed

lemma rank_one_rows:
  assumes "\<And>xs. set (ord xs) = set xs"
  shows "map fst (filter (\<lambda>(r, rank). rank = 1) (row_number_over part ord rows)) =
           map (\<lambda>p. hd (ord (filter (\<lambda>r. part r = p) rows))) (remdups (map part rows))"
proof -
  have ne: "ord (filter (\<lambda>r. part r = p) rows) \<noteq> []" if "p \<in> set (remdups (map part rows))" for p
  proof -
    from that obtain r where "r \<in> set rows" "part r = p" by auto
    then have "r \<in> set (ord (filter (\<lambda>r. part r = p) rows))" by (simp add: assms)
    then show ?thesis by auto
  qed
  have "filter (\<lambda>(r, rank). rank = 1) (row_number_over part ord rows) =
          concat (map (\<lambda>p. [(hd (ord (filter (\<lambda>r. part r = p) rows)), 1)]) (remdups (map part rows)))"
    unfolding row_number_over_def filter_concat map_map comp_def Let_def
  proof (rule arg_cong [where f = concat], rule map_cong)
    show "remdups (map part rows) = remdups (map part rows)" ..
  next
    fix p assume "p \<in> set (remdups (map part rows))"
    then show "filter (\<lambda>(r, rank). rank = 1)
            (zip (ord (filter (\<lambda>r. part r = p) rows))
               [1..<Suc (length (ord (filter (\<lambda>r. part r = p) rows)))]) =
          [(hd (ord (filter (\<lambda>r. part r = p) rows)), 1)]"
      by (intro rank_one_zip ne)
  qed
  then show ?thesis by (simp add: comp_def)
qed

lemma part_rank_one:
  assumes "\<And>xs. set (ord xs) = set xs" and "p \<in> part ` set rows"
  shows "hd (ord (filter (\<lambda>r. part r = p) rows)) \<in> set (filter (\<lambda>r. part r = p) rows)"
proof -
  from assms(2) have "set (ord (filter (\<lambda>r. part r = p) rows)) \<noteq> {}"
    by (auto simp: assms(1))
  then have "hd (ord (filter (\<lambda>r. part r = p) rows)) \<in> set (ord (filter (\<lambda>r. part r = p) rows))"
    by (intro hd_in_set) auto
  then show ?thesis by (simp add: assms(1))
qed



section \<open>Top-K per group\<close>









lemma task3_rows:
  "snd (task3_top_songs_this_week t0 tie enriched_logs songs_df fs) = top_songs t0 tie enriched_logs"
  by (simp add: task3_top_songs_this_week_def Let_def)


section \<open>Recommendations\<close>

lemma foldl_union: "foldl (@) r rs = r @ concat rs"
  by (induction rs arbitrary: r) simp_all

lemma union_all: "(case xs of [] \<Rightarrow> [] | r # rs \<Rightarrow> foldl (@) r rs) = concat xs"
  by (cases xs) (simp_all add: foldl_union)

lemma set_orderBy_rand: "set (orderBy_rand rnd rows) = set rows"
proof -
  have m: "map snd (zip (map rnd [0..<length rows]) rows) = rows"
    by (rule map_snd_zip) simp
  have "set (orderBy_rand rnd rows) = set (map snd (zip (map rnd [0..<length rows]) rows))"
    unfolding orderBy_rand_def set_map set_sort ..
  then show ?thesis by (simp only: m)
qed

lemma user_recommendations_row:
  assumes "r \<in> set (user_recommendations rnd user_songs happy_songs uid)"
  shows "\<exists>s \<in> set happy_songs. r = (uid, song_row.song_id s, title s, artist s) \<and>
           (uid \<noteq> None \<longrightarrow> (uid, song_row.song_id s) \<notin> set user_songs)"
proof -
  let ?listened = "map snd (filter (\<lambda>p. is_true (eq3 (fst p) uid)) user_songs)"
  let ?pool = "filter (\<lambda>s. is_true (not3 (isin3 (song_row.song_id s) ?listened))) happy_songs"
  from assms obtain s where s: "s \<in> set (take 3 (orderBy_rand rnd ?pool))"
    and r: "r = (uid, song_row.song_id s, title s, artist s)"
    by (auto simp: user_recommendations_def Let_def)
  from s have "s \<in> set (orderBy_rand rnd ?pool)" by (rule in_set_takeD)
  then have "s \<in> set ?pool" by (simp only: set_orderBy_rand)
  then have h: "s \<in> set happy_songs" and n: "song_row.song_id s \<notin> set ?listened"
    by (simp_all add: is_true_not_isin3)
  have "(uid, song_row.song_id s) \<notin> set user_songs" if "uid \<noteq> None"
  proof
    assume "(uid, song_row.song_id s) \<in> set user_songs"
    with that have "(uid, song_row.song_id s) \<in> set (filter (\<lambda>p. is_true (eq3 (fst p) uid)) user_songs)"
      by (simp add: is_true_eq3)
    then have "snd (uid, song_row.song_id s) \<in> set ?listened"
      unfolding set_map by (rule imageI)
    with n show False by simp
  qed
  with h r show ?thesis by blast
qed

lemma user_recommendations_user:
  "r \<in> set (user_recommendations rnd user_songs happy_songs uid) \<Longrightarrow> fst r = uid"
  by (auto simp: user_recommendations_def Let_def)

lemma length_user_recommendations:
  "length (user_recommendations rnd user_songs happy_songs uid) \<le> 3"
  by (simp add: user_recommendations_def Let_def)

lemma rank_one_and:
  "map (\<lambda>(r, rank). f r) (filter (\<lambda>(r, rank). rank = 1 \<and> Q r) xs) =
     map f (filter Q (map fst (filter (\<lambda>(r, rank). rank = 1) xs)))"
  by (induction xs) auto

lemma distinct_sad_song_listeners: "distinct (sad_song_listeners tie enriched_logs)"
proof -
  let ?ord = "orderBy_desc tie (\<lambda>r. int (snd (snd r)))"
  let ?rows = "mood_counts enriched_logs"
  let ?h = "\<lambda>p. hd (?ord (filter (\<lambda>r. fst r = p) ?rows))"
  let ?ps = "remdups (map fst ?rows)"
  have s: "\<And>xs. set (?ord xs) = set xs" by (rule set_orderBy_desc)
  have one: "map fst (filter (\<lambda>(r, rank). rank = 1) (row_number_over fst ?ord ?rows)) = map ?h ?ps"
    by (rule rank_one_rows [OF s])
  have "fst (?h p) = p" if "p \<in> set ?ps" for p
  proof -
    from that have "p \<in> fst ` set ?rows" by simp
    from part_rank_one [OF s this] show ?thesis by simp
  qed
  then have "map fst (map ?h ?ps) = ?ps"
    unfolding map_map by (intro map_idI) simp
  then have "distinct (map fst (map ?h ?ps))" by simp
  then have "distinct (map fst (filter (\<lambda>r. fst (snd r) = Some ''Sad'') (map ?h ?ps)))"
    by (rule distinct_map_filter)
  then show ?thesis
    unfolding sad_song_listeners_def Let_def fst_conv snd_conv rank_one_and one .
qed

lemma final_recommendations_concat:
  "final_recommendations tie rnd enriched_logs songs_df =
     concat (map (\<lambda>uid. user_recommendations (rnd uid)
                    (remdups (map (\<lambda>e. (user_id (fst e), log_row.song_id (fst e))) enriched_logs))
                    (filter (\<lambda>s. mood s = Some ''Happy'') songs_df) uid)
               (sad_song_listeners tie enriched_logs))"
  by (simp add: final_recommendations_def Let_def union_all)

lemma filter_by_user_concat:
  assumes "distinct us" and "\<And>u r. r \<in> set (f u) \<Longrightarrow> fst r = u"
  shows "filter (\<lambda>r. fst r = uid) (concat (map f us)) = (if uid \<in> set us then f uid else [])"
  using assms(1)
proof (induction us)
  case Nil
  then show ?case by simp
next
  case (Cons u us)
  have a: "filter (\<lambda>r. fst r = uid) (f u) = (if u = uid then f u else [])"
    using assms(2) [of _ u] by (auto simp: filter_empty_conv filter_id_conv)
  from Cons show ?case by (auto simp: a)
qed

lemma task4_rows:
  "snd (task4_happy_song_recommendations tie rnd enriched_logs songs_df fs) =
     final_recommendations tie rnd enriched_logs songs_df"
  by (simp add: task4_happy_song_recommendations_def Let_def)

text \<open>What holds of the recommendations in every run: every record is made from a song
  row whose mood is \<open>Happy\<close>, no listener receives more than 3 records, and a listener
  whose \<^verbatim>\<open>user_id\<close> is not null is offered no song of a log row of theirs.\<close>

lemma recommendations_of_named_listeners:
  assumes "load_data to_ts to_i src = Inr (logs_df, songs_df, enriched_logs)"
  shows "(\<forall>(uid, sid, t, a) \<in> set (snd (task4_happy_song_recommendations tie rnd enriched_logs songs_df fs)).
            (uid \<noteq> None \<longrightarrow>
               (\<forall>l \<in> set logs_df. \<not> (user_id l = uid \<and> log_row.song_id l = sid))) \<and>
            (\<exists>s \<in> set songs_df. song_row.song_id s = sid \<and> title s = t \<and> artist s = a \<and>
                mood s = Some ''Happy''))
         \<and> (\<forall>uid. length (filter (\<lambda>r. fst r = uid)
                (snd (task4_happy_song_recommendations tie rnd enriched_logs songs_df fs))) \<le> 3)"
proof -
  have e: "enriched_logs = join_inner logs_df songs_df"
    using assms by (rule load_data_enriched)
  let ?us = "remdups (map (\<lambda>e. (user_id (fst e), log_row.song_id (fst e))) enriched_logs)"
  let ?hs = "filter (\<lambda>s. mood s = Some ''Happy'') songs_df"
  let ?f = "\<lambda>uid. user_recommendations (rnd uid) ?us ?hs uid"
  have out: "snd (task4_happy_song_recommendations tie rnd enriched_logs songs_df fs) =
      concat (map ?f (sad_song_listeners tie enriched_logs))"
    by (simp add: task4_rows final_recommendations_concat)
  have rows: "(uid \<noteq> None \<longrightarrow>
               (\<forall>l \<in> set logs_df. \<not> (user_id l = uid \<and> log_row.song_id l = sid))) \<and>
            (\<exists>s \<in> set songs_df. song_row.song_id s = sid \<and> title s = t \<and> artist s = a \<and>
                mood s = Some ''Happy'')"
    if "(uid, sid, t, a) \<in> set (concat (map ?f (sad_song_listeners tie enriched_logs)))"
    for uid sid t a
  proof -
    from that obtain u where m: "(uid, sid, t, a) \<in> set (?f u)" by auto
    from user_recommendations_row [OF m] obtain s where
      s: "s \<in> set ?hs" and r: "(uid, sid, t, a) = (u, song_row.song_id s, title s, artist s)"
      and un: "u \<noteq> None \<longrightarrow> (u, song_row.song_id s) \<notin> set ?us"
      by blast
    from m have sid: "sid \<noteq> None"
      by (auto simp: user_recommendations_def Let_def is_true_not_isin3 set_orderBy_rand
          dest!: in_set_takeD)
    have "\<not> (user_id l = uid \<and> log_row.song_id l = sid)" if "l \<in> set logs_df" "uid \<noteq> None" for l
    proof
      assume c: "user_id l = uid \<and> log_row.song_id l = sid"
      with r s that sid have "(l, s) \<in> set enriched_logs"
        by (simp add: e set_join_inner)
      then have "(user_id l, log_row.song_id l) \<in> set ?us" by force
      with un r c that show False by simp
    qed
    with s r show ?thesis by auto
  qed
  have most: "length (filter (\<lambda>r. fst r = uid) (concat (map ?f (sad_song_listeners tie enriched_logs)))) \<le> 3"
    for uid
  proof -
    have "filter (\<lambda>r. fst r = uid) (concat (map ?f (sad_song_listeners tie enriched_logs))) =
        (if uid \<in> set (sad_song_listeners tie enriched_logs) then ?f uid else [])"
      by (rule filter_by_user_concat [OF distinct_sad_song_listeners]) (rule user_recommendations_user)
    then show ?thesis by (simp add: length_user_recommendations)
  qed
  show ?thesis
    unfolding out using rows most by blast
qed

section \<open>The small batches: recommendations and top-K\<close>

lemma nameless_final_recommendations:
  "final_recommendations (\<lambda>_. 0) (\<lambda>_ _. 0) nameless_enriched demo_songs =
     [(None, Some ''S001'', Some ''A'', Some ''X''), (None, Some ''S003'', Some ''C'', Some ''Z'')]"
  by code_simp

lemma nameless_listeners: "sad_song_listeners (\<lambda>_. 0) nameless_enriched = [None]"
  by code_simp

text \<open>
  C1 (recommendation invariant), at a listener without a name. In the logs of the nameless
  listener the field \<^verbatim>\<open>user_id\<close> is empty, which the reader loads as null. The listener
  plays \<open>S002\<close> (sad) twice and \<open>S001\<close> (happy) once, so it is collected among the sad
  listeners, as Python's \<^verbatim>\<open>None\<close>. The comparison of \<^verbatim>\<open>user_id\<close> with \<^verbatim>\<open>None\<close> is
  true of no row, so the songs the listener played are found to be none, and the listener
  is offered \<open>S001\<close>, a song of one of its own log rows.
\<close>

theorem nameless_listener_is_offered_a_played_song:
  "load_data (to_timestamp demo_env) (to_int demo_env) nameless_sources =
     Inr (nameless_logs, demo_songs, nameless_enriched)
   \<and> sad_song_listeners (tie_mood demo_env) nameless_enriched = [None]
   \<and> snd (task4_happy_song_recommendations (tie_mood demo_env) (rand demo_env) nameless_enriched
          demo_songs Map.empty) =
       [(None, Some ''S001'', Some ''A'', Some ''X''), (None, Some ''S003'', Some ''C'', Some ''Z'')]
   \<and> nameless_logs ! 2 \<in> set nameless_logs
   \<and> user_id (nameless_logs ! 2) = None
   \<and> log_row.song_id (nameless_logs ! 2) = Some ''S001''"
proof -
  have a: "load_data (to_timestamp demo_env) (to_int demo_env) nameless_sources =
     Inr (nameless_logs, demo_songs, nameless_enriched)"
    using load_data_nameless by (simp add: demo_env_def)
  have b: "sad_song_listeners (tie_mood demo_env) nameless_enriched = [None]"
    using nameless_listeners by (simp add: demo_env_def)
  have c: "snd (task4_happy_song_recommendations (tie_mood demo_env) (rand demo_env) nameless_enriched
          demo_songs Map.empty) =
       [(None, Some ''S001'', Some ''A'', Some ''X''), (None, Some ''S003'', Some ''C'', Some ''Z'')]"
    using nameless_final_recommendations by (simp add: task4_rows demo_env_def)
  have d: "nameless_logs ! 2 \<in> set nameless_logs" "user_id (nameless_logs ! 2) = None"
    "log_row.song_id (nameless_logs ! 2) = Some ''S001''"
    by (simp_all add: nameless_logs_def)
  from a b c d show ?thesis by (intro conjI)
qed






section \<open>Genre loyalty\<close>

lemma user_genre_plays_rows:
  "user_genre_plays enriched_logs =
     map (\<lambda>k. (fst k, snd k, genre_plays_of enriched_logs (fst k) (snd k)))
       (remdups (map (\<lambda>e. (user_id (fst e), genre (snd e))) enriched_logs))"
  by (simp add: user_genre_plays_def groupBy_count_def genre_plays_of_def split_def prod_eq_iff)

lemma distinct_user_genre_plays: "distinct (user_genre_plays enriched_logs)"
proof -
  have "distinct (map (\<lambda>r. (fst r, fst (snd r))) (user_genre_plays enriched_logs))"
    by (simp add: user_genre_plays_rows comp_def)
  then show ?thesis by (simp add: distinct_map)
qed

lemma in_user_genre_plays:
  "(u, g, c) \<in> set (user_genre_plays enriched_logs) \<longleftrightarrow>
     (\<exists>e \<in> set enriched_logs. user_id (fst e) = u \<and> genre (snd e) = g) \<and>
     c = genre_plays_of enriched_logs u g"
  by (auto simp: user_genre_plays_rows image_iff)

lemma window_values:
  "set (map (\<lambda>r. snd (snd r)) (filter (\<lambda>r'. fst r' = u) (user_genre_plays enriched_logs))) =
   set (map (\<lambda>e. genre_plays_of enriched_logs u (genre (snd e)))
          (filter (\<lambda>e. user_id (fst e) = u) enriched_logs))"
  (is "?L = ?R")
proof (rule set_eqI, rule iffI)
  fix c assume "c \<in> ?L"
  then obtain r where r: "r \<in> set (user_genre_plays enriched_logs)" "fst r = u" "c = snd (snd r)"
    by auto
  then have "(u, fst (snd r), c) \<in> set (user_genre_plays enriched_logs)"
    by (cases r) auto
  then obtain e where "e \<in> set enriched_logs" "user_id (fst e) = u" "genre (snd e) = fst (snd r)"
    "c = genre_plays_of enriched_logs u (fst (snd r))"
    unfolding in_user_genre_plays by blast
  then have "e \<in> set (filter (\<lambda>e. user_id (fst e) = u) enriched_logs)"
    and "c = genre_plays_of enriched_logs u (genre (snd e))"
    by simp_all
  then show "c \<in> ?R" unfolding set_map by (rule rev_image_eqI)
next
  fix c assume "c \<in> ?R"
  then obtain e where e: "e \<in> set enriched_logs" "user_id (fst e) = u"
    "c = genre_plays_of enriched_logs u (genre (snd e))"
    by auto
  then have "(u, genre (snd e), c) \<in> set (user_genre_plays enriched_logs)"
    unfolding in_user_genre_plays by blast
  then have "(u, genre (snd e), c) \<in> set (filter (\<lambda>r'. fst r' = u) (user_genre_plays enriched_logs))"
    by simp
  then show "c \<in> ?L" unfolding set_map by (rule rev_image_eqI) simp
qed

lemma window_max:
  "Max (set (map (\<lambda>r. snd (snd r)) (filter (\<lambda>r'. fst r' = u) (user_genre_plays enriched_logs))))
     = max_genre_plays_of enriched_logs u"
  by (simp only: max_genre_plays_of_def window_values)

lemma user_max_genre_eq:
  "user_max_genre enriched_logs =
     filter (\<lambda>r. snd (snd r) = max_genre_plays_of enriched_logs (fst r)) (user_genre_plays enriched_logs)"
proof -
  let ?rows = "user_genre_plays enriched_logs"
  have "map (\<lambda>(r, m). (fst r, fst (snd r), m :: nat)) (filter (\<lambda>(r, m). snd (snd r) = m) (map (\<lambda>r. (r, w r)) xs))
      = filter (\<lambda>r. snd (snd r) = w r) xs" for w and xs :: "(string option \<times> string option \<times> nat) list"
    by (induction xs) auto
  note a = this [of "\<lambda>r. Max (set (map (\<lambda>r. snd (snd r)) (filter (\<lambda>r'. fst r' = fst r) ?rows)))" ?rows]
  have "filter (\<lambda>r. snd (snd r) = Max (set (map (\<lambda>r. snd (snd r)) (filter (\<lambda>r'. fst r' = fst r) ?rows)))) ?rows
      = filter (\<lambda>r. snd (snd r) = max_genre_plays_of enriched_logs (fst r)) ?rows"
    by (rule filter_cong) (simp_all only: window_max)
  with a show ?thesis
    by (simp only: user_max_genre_def max_over_def)
qed

lemma single_match:
  assumes "distinct (map fst ts)" and "(u, t) \<in> set ts" and "u \<noteq> None"
  shows "concat (map (\<lambda>(u', tp). if is_true (eq3 u u') then [f tp] else []) ts) = [f t]"
  using assms(1,2)
proof (induction ts)
  case Nil
  then show ?case by simp
next
  case (Cons p ts)
  show ?case
  proof (cases "fst p = u")
    case True
    with Cons.prems have "p = (u, t)"
      by (cases p) (auto simp: image_iff)
    moreover have "concat (map (\<lambda>(u', tp). if is_true (eq3 u u') then [f tp] else []) ts) = []"
      using Cons.prems True by (auto simp: image_iff is_true_eq3)
    ultimately show ?thesis using assms(3) by (simp add: is_true_eq3)
  next
    case False
    with Cons show ?thesis by (cases p) (auto simp: is_true_eq3)
  qed
qed

lemma null_match:
  "concat (map (\<lambda>(u', tp). if is_true (eq3 None u') then [f tp] else []) ts) = []"
  by (induction ts) (auto simp: is_true_eq3)

lemma concat_map_if: "concat (map (\<lambda>r. if P r then [h r] else []) xs) = map h (filter P xs)"
  by (induction xs) auto

lemma user_total_plays_rows:
  "groupBy_count (\<lambda>e. user_id (fst e)) enriched_logs =
     map (\<lambda>u. (u, total_plays_of enriched_logs u)) (remdups (map (\<lambda>e. user_id (fst e)) enriched_logs))"
  by (simp add: groupBy_count_def total_plays_of_def)

lemma loyalty_joined:
  "loyalty_scores tie enriched_logs =
     orderBy_desc tie (\<lambda>r. snd (snd r))
       (filter (\<lambda>r. snd (snd r) > 0.8)
          (map (\<lambda>r. (fst r, fst (snd r), real (snd (snd r)) / real (total_plays_of enriched_logs (fst r))))
             (filter (\<lambda>r. fst r \<noteq> None) (user_max_genre enriched_logs))))"
proof -
  let ?ts = "groupBy_count (\<lambda>e. user_id (fst e)) enriched_logs"
  let ?J = "\<lambda>r. (fst r, fst (snd r), real (snd (snd r)) / real (total_plays_of enriched_logs (fst r)))"
  have one: "(\<lambda>(u, g, m). concat (map (\<lambda>(u', tp). if is_true (eq3 u u') then [(u, g, real m / real tp)]
        else []) ?ts)) r = (if fst r \<noteq> None then [?J r] else [])"
    if "r \<in> set (user_max_genre enriched_logs)" for r
  proof -
    obtain u g m where r: "r = (u, g, m)" by (cases r)
    show ?thesis
    proof (cases "u = None")
      case True
      then show ?thesis by (simp add: r null_match)
    next
      case False
      from that have "(u, g, m) \<in> set (user_genre_plays enriched_logs)"
        by (auto simp: user_max_genre_eq r)
      then have "(u, total_plays_of enriched_logs u) \<in> set ?ts"
        unfolding in_user_genre_plays by (auto simp: user_total_plays_rows)
      moreover have "distinct (map fst ?ts)"
        by (simp add: user_total_plays_rows comp_def)
      ultimately have "concat (map (\<lambda>(u', tp). if is_true (eq3 u u') then [(u, g, real m / real tp)]
          else []) ?ts) = [(u, g, real m / real (total_plays_of enriched_logs u))]"
        using False by (intro single_match [where f = "\<lambda>tp. (u, g, real m / real tp)"])
      with False show ?thesis by (simp add: r)
    qed
  qed
  have "concat (map (\<lambda>(u, g, m). concat (map (\<lambda>(u', tp). if is_true (eq3 u u')
          then [(u, g, real m / real tp)] else []) ?ts)) (user_max_genre enriched_logs))
      = concat (map (\<lambda>r. if fst r \<noteq> None then [?J r] else []) (user_max_genre enriched_logs))"
    by (rule arg_cong [where f = concat], rule map_cong [OF refl]) (rule one)
  then show ?thesis
    by (simp add: loyalty_scores_def Let_def concat_map_if)
qed

lemma length_filtered_map:
  "length (filter A (filter B (map h (filter C (filter D xs))))) =
     length (filter (\<lambda>r. D r \<and> C r \<and> B (h r) \<and> A (h r)) xs)"
  by (induction xs) auto

lemma genre_plays_le_total: "genre_plays_of enriched_logs u g \<le> total_plays_of enriched_logs u"
  unfolding genre_plays_of_def total_plays_of_def
  by (induction enriched_logs) auto

lemma two_genres_le_total:
  "g \<noteq> g' \<Longrightarrow>
   genre_plays_of enriched_logs u g + genre_plays_of enriched_logs u g' \<le> total_plays_of enriched_logs u"
  unfolding genre_plays_of_def total_plays_of_def
  by (induction enriched_logs) auto

lemma loyalty_row:
  assumes "r \<in> set (loyalty_scores tie enriched_logs)"
  shows "\<exists>c. (fst r, fst (snd r), c) \<in> set (user_genre_plays enriched_logs) \<and>
           c = max_genre_plays_of enriched_logs (fst r) \<and>
           snd (snd r) = real c / real (total_plays_of enriched_logs (fst r)) \<and>
           0.8 < snd (snd r)"
  using assms
  by (auto simp: loyalty_joined set_orderBy_desc user_max_genre_eq)

lemma task5_rows:
  "snd (task5_genre_loyalty_scores tie enriched_logs fs) = loyalty_scores tie enriched_logs"
  by (simp add: task5_genre_loyalty_scores_def Let_def)

lemma ratio_le_one:
  "real (genre_plays_of enriched_logs u g) / real (total_plays_of enriched_logs u) \<le> 1"
proof (cases "total_plays_of enriched_logs u = 0")
  case True
  then show ?thesis by simp
next
  case False
  then show ?thesis
    using genre_plays_le_total [of enriched_logs u g] by (simp add: divide_le_eq_1)
qed

lemma tied_ratio_le_half:
  assumes "g \<noteq> g'"
    and "genre_plays_of enriched_logs u g = m" and "genre_plays_of enriched_logs u g' = m"
  shows "real m / real (total_plays_of enriched_logs u) \<le> 1 / 2"
proof (cases "total_plays_of enriched_logs u = 0")
  case True
  then show ?thesis by simp
next
  case False
  from two_genres_le_total [OF assms(1), of enriched_logs u] assms(2,3)
  have "2 * m \<le> total_plays_of enriched_logs u" by simp
  then have "2 * real m \<le> real (total_plays_of enriched_logs u)"
    by (metis of_nat_le_iff of_nat_mult of_nat_numeral)
  with False show ?thesis by (simp add: field_simps)
qed

text \<open>
  C8 (loyalty bound). Every record that task 5 emits has a loyalty score above 0.8 and at
  most 1, and the score is the largest of the user's per-genre play counts divided by the
  user's total play count; a user for whom that quotient is at most 0.8 has no record.
\<close>

theorem loyalty_bound:
  "(\<forall>(u, g, score) \<in> set (snd (task5_genre_loyalty_scores tie enriched_logs fs)).
      0.8 < score \<and> score \<le> 1 \<and>
      score = real (max_genre_plays_of enriched_logs u) / real (total_plays_of enriched_logs u))
   \<and> (\<forall>u. real (max_genre_plays_of enriched_logs u) / real (total_plays_of enriched_logs u) \<le> 0.8 \<longrightarrow>
          u \<notin> fst ` set (snd (task5_genre_loyalty_scores tie enriched_logs fs)))"
proof -
  have row: "0.8 < snd (snd r) \<and> snd (snd r) \<le> 1 \<and>
      snd (snd r) = real (max_genre_plays_of enriched_logs (fst r)) /
        real (total_plays_of enriched_logs (fst r))"
    if "r \<in> set (loyalty_scores tie enriched_logs)" for r
  proof -
    from loyalty_row [OF that] obtain c where
      c: "(fst r, fst (snd r), c) \<in> set (user_genre_plays enriched_logs)"
      and m: "c = max_genre_plays_of enriched_logs (fst r)"
      and s: "snd (snd r) = real c / real (total_plays_of enriched_logs (fst r))"
      and b: "0.8 < snd (snd r)"
      by blast
    from c have "c = genre_plays_of enriched_logs (fst r) (fst (snd r))"
      unfolding in_user_genre_plays by simp
    with s have "snd (snd r) \<le> 1" by (simp only: ratio_le_one)
    with b s m show ?thesis by simp
  qed
  have a: "\<forall>(u, g, score) \<in> set (loyalty_scores tie enriched_logs).
      0.8 < score \<and> score \<le> 1 \<and>
      score = real (max_genre_plays_of enriched_logs u) / real (total_plays_of enriched_logs u)"
    using row by fastforce
  have b: "\<forall>u. real (max_genre_plays_of enriched_logs u) / real (total_plays_of enriched_logs u) \<le> 0.8 \<longrightarrow>
          u \<notin> fst ` set (loyalty_scores tie enriched_logs)"
    using row by fastforce
  show ?thesis unfolding task5_rows using a b ..
qed

lemma at_most_one:
  assumes "distinct xs"
    and "\<And>x y. x \<in> set xs \<Longrightarrow> y \<in> set xs \<Longrightarrow> P x \<Longrightarrow> P y \<Longrightarrow> x = y"
  shows "length (filter P xs) \<le> 1"
proof (cases "filter P xs")
  case Nil
  then show ?thesis by simp
next
  case (Cons a ys)
  show ?thesis
  proof (cases ys)
    case Nil
    with Cons show ?thesis by simp
  next
    case (Cons b zs)
    with \<open>filter P xs = a # ys\<close> have f: "filter P xs = a # b # zs" by simp
    have "distinct (filter P xs)" using assms(1) by simp
    with f have "a \<noteq> b" by simp
    moreover have "a \<in> set (filter P xs)" "b \<in> set (filter P xs)" by (simp_all add: f)
    then have "a = b" using assms(2) [of a b] by simp
    ultimately show ?thesis by simp
  qed
qed

text \<open>
  C10 (one loyalty row per user). The loyalty output of task 5 holds at most one row per
  user. Two different genres of a user that are both kept as the user's maximum have the
  same play count, which is then at most half the user's total plays, so the rows of tied
  genres never pass the threshold of 0.8.
\<close>

theorem loyalty_one_row_per_user:
  "length (filter (\<lambda>r. fst r = u) (snd (task5_genre_loyalty_scores tie enriched_logs fs))) \<le> 1
   \<and> (\<forall>g g' m m'. g \<noteq> g' \<and> (u, g, m) \<in> set (user_max_genre enriched_logs) \<and>
          (u, g', m') \<in> set (user_max_genre enriched_logs) \<longrightarrow>
          m = m' \<and> real m / real (total_plays_of enriched_logs u) \<le> 1 / 2)"
proof -
  let ?T = "\<lambda>u. real (total_plays_of enriched_logs u)"
  let ?J = "\<lambda>r. (fst r, fst (snd r), real (snd (snd r)) / ?T (fst r))"
  let ?P = "\<lambda>r. snd (snd r) = max_genre_plays_of enriched_logs (fst r) \<and> fst r \<noteq> None \<and>
      0.8 < real (snd (snd r)) / ?T (fst r) \<and> fst r = u"
  have tied: "m = m' \<and> real m / ?T u \<le> 1 / 2"
    if "g \<noteq> g'" "(u, g, m) \<in> set (user_max_genre enriched_logs)"
      "(u, g', m') \<in> set (user_max_genre enriched_logs)" for g g' m m'
  proof -
    from that(2,3) have "m = max_genre_plays_of enriched_logs u" "m' = max_genre_plays_of enriched_logs u"
      and "m = genre_plays_of enriched_logs u g" "m' = genre_plays_of enriched_logs u g'"
      by (auto simp: user_max_genre_eq in_user_genre_plays)
    then have "m = m'" "genre_plays_of enriched_logs u g = m" "genre_plays_of enriched_logs u g' = m"
      by simp_all
    with tied_ratio_le_half [OF that(1), of enriched_logs u m] show ?thesis by simp
  qed
  have "length (filter (\<lambda>r. fst r = u) (loyalty_scores tie enriched_logs)) =
      length (filter ?P (user_genre_plays enriched_logs))"
    unfolding loyalty_joined orderBy_desc_def filter_sort length_sort user_max_genre_eq
      length_filtered_map by simp
  moreover have "length (filter ?P (user_genre_plays enriched_logs)) \<le> 1"
  proof (rule at_most_one [OF distinct_user_genre_plays])
    fix x y
    assume x: "x \<in> set (user_genre_plays enriched_logs)" and y: "y \<in> set (user_genre_plays enriched_logs)"
      and px: "?P x" and py: "?P y"
    obtain g c where xe: "x = (u, g, c)" using px by (cases x) auto
    obtain g' c' where ye: "y = (u, g', c')" using py by (cases y) auto
    from x px xe have mx: "(u, g, c) \<in> set (user_max_genre enriched_logs)"
      by (simp add: user_max_genre_eq)
    from y py ye have my: "(u, g', c') \<in> set (user_max_genre enriched_logs)"
      by (simp add: user_max_genre_eq)
    have "g = g'"
    proof (rule ccontr)
      assume "g \<noteq> g'"
      from tied [OF this mx my] have "real c / ?T u \<le> 1 / 2" by (rule conjunct2)
      with px xe show False by simp
    qed
    moreover from px py xe ye have "c = c'" by simp
    ultimately show "x = y" by (simp add: xe ye)
  qed
  ultimately have "length (filter (\<lambda>r. fst r = u) (loyalty_scores tie enriched_logs)) \<le> 1"
    by simp
  with tied show ?thesis unfolding task5_rows by blast
qed

section \<open>The small batch: loyalty\<close>

lemma demo_loyalty_scores: "loyalty_scores (\<lambda>_. 0) demo_enriched = [(Some ''U1'', Some ''Pop'', 1)]"
  by code_simp

lemma demo_ratio_U1:
  "real (max_genre_plays_of demo_enriched (Some ''U1'')) / real (total_plays_of demo_enriched (Some ''U1'')) = 1"
  by code_simp

lemma demo_ratio_U2:
  "real (max_genre_plays_of demo_enriched (Some ''U2'')) / real (total_plays_of demo_enriched (Some ''U2'')) = 2 / 3"
  by code_simp

lemma demo_tied_max_genre:
  "user_max_genre demo_tied = [(Some ''U2'', Some ''Pop'', 1), (Some ''U2'', Some ''Rock'', 1)]"
  by code_simp

lemma demo_tied_total: "total_plays_of demo_tied (Some ''U2'') = 2"
  by code_simp

theorem loyalty_bound_witness:
  "(Some ''U1'', Some ''Pop'', 1) \<in> set (snd (task5_genre_loyalty_scores (\<lambda>_. 0) demo_enriched Map.empty))
   \<and> real (max_genre_plays_of demo_enriched (Some ''U1'')) / real (total_plays_of demo_enriched (Some ''U1'')) = 1
   \<and> real (max_genre_plays_of demo_enriched (Some ''U2'')) / real (total_plays_of demo_enriched (Some ''U2'')) = 2 / 3
   \<and> Some ''U2'' \<notin> fst ` set (snd (task5_genre_loyalty_scores (\<lambda>_. 0) demo_enriched Map.empty))"
proof -
  define out where "out = snd (task5_genre_loyalty_scores (\<lambda>_. 0) demo_enriched Map.empty)"
  note b = loyalty_bound [of "\<lambda>_. 0" demo_enriched Map.empty, folded out_def]
  have m: "(Some ''U1'', Some ''Pop'', 1) \<in> set out"
    by (simp add: out_def task5_rows demo_loyalty_scores)
  from b have "\<forall>u. real (max_genre_plays_of demo_enriched u) / real (total_plays_of demo_enriched u) \<le> 0.8 \<longrightarrow>
      u \<notin> fst ` set out"
    by (rule conjunct2)
  then have "real (max_genre_plays_of demo_enriched (Some ''U2'')) / real (total_plays_of demo_enriched (Some ''U2'')) \<le> 0.8 \<longrightarrow>
      Some ''U2'' \<notin> fst ` set out" ..
  moreover have "real (max_genre_plays_of demo_enriched (Some ''U2'')) / real (total_plays_of demo_enriched (Some ''U2'')) \<le> 0.8"
    by (simp add: demo_ratio_U2)
  ultimately have n: "Some ''U2'' \<notin> fst ` set out" ..
  show ?thesis
    unfolding out_def [symmetric] using m demo_ratio_U1 demo_ratio_U2 n by (intro conjI)
qed

theorem loyalty_one_row_per_user_witness:
  "(Some ''U2'', Some ''Pop'', 1) \<in> set (user_max_genre demo_tied)
   \<and> (Some ''U2'', Some ''Rock'', 1) \<in> set (user_max_genre demo_tied)
   \<and> real 1 / real (total_plays_of demo_tied (Some ''U2'')) \<le> 1 / 2
   \<and> length (filter (\<lambda>r. fst r = Some ''U2'') (snd (task5_genre_loyalty_scores (\<lambda>_. 0) demo_tied Map.empty))) \<le> 1"
proof -
  define out where "out = snd (task5_genre_loyalty_scores (\<lambda>_. 0) demo_tied Map.empty)"
  note t = loyalty_one_row_per_user [of "Some ''U2''" "\<lambda>_. 0" demo_tied Map.empty, folded out_def]
  have p: "(Some ''U2'', Some ''Pop'', 1) \<in> set (user_max_genre demo_tied)"
    and r: "(Some ''U2'', Some ''Rock'', 1) \<in> set (user_max_genre demo_tied)"
    by (simp_all add: demo_tied_max_genre)
  have d: "Some ''Pop'' \<noteq> Some ''Rock''" by simp
  from t have "\<forall>g g' m m'. g \<noteq> g' \<and> (Some ''U2'', g, m) \<in> set (user_max_genre demo_tied) \<and>
          (Some ''U2'', g', m') \<in> set (user_max_genre demo_tied) \<longrightarrow>
          m = m' \<and> real m / real (total_plays_of demo_tied (Some ''U2'')) \<le> 1 / 2"
    by (rule conjunct2)
  then have "Some ''Pop'' \<noteq> Some ''Rock'' \<and> (Some ''U2'', Some ''Pop'', 1) \<in> set (user_max_genre demo_tied) \<and>
          (Some ''U2'', Some ''Rock'', 1) \<in> set (user_max_genre demo_tied) \<longrightarrow>
          (1::nat) = 1 \<and> real 1 / real (total_plays_of demo_tied (Some ''U2'')) \<le> 1 / 2"
    by (elim allE)
  with d p r have h: "real 1 / real (total_plays_of demo_tied (Some ''U2'')) \<le> 1 / 2"
    by (elim impE conjE) (intro conjI)
  from t have l: "length (filter (\<lambda>r. fst r = Some ''U2'') out) \<le> 1"
    by (rule conjunct1)
  show ?thesis
    unfolding out_def [symmetric] using p r h l by (intro conjI)
qed

section \<open>The weekly window\<close>

lemma later_events_are_retained:
  "e \<in> set enriched_logs \<Longrightarrow> timestamp (fst e) = Some t \<Longrightarrow> current_date \<le> t \<Longrightarrow>
   e \<in> set (this_week current_date enriched_logs)"
  by (simp add: this_week_def timedelta_days_def)

lemma demo_top_songs:
  "top_songs demo_now (\<lambda>_. 0) demo_enriched =
     [(Some ''S002'', Some ''B'', Some ''Y'', 2), (Some ''S003'', Some ''C'', Some ''Z'', 2)]"
  by code_simp

text \<open>
  C7 (the weekly window), at a play dated after the run. The small batch is run on
  2025-03-22 at 00:00:00 and holds a play of \<open>S003\<close> dated 2025-03-25 08:00:00. The only
  comparison of the filter is with the time seven days before the reference time, so the
  play is retained: the retained events are not those of the closed interval that ends
  at the reference time, and \<open>S003\<close> is listed with 2 plays, of which one lies within the
  interval.
\<close>

theorem play_after_now_is_counted:
  "timestamp (fst (demo_enriched ! 4)) = Some 1742889600000000
   \<and> demo_now < 1742889600000000
   \<and> demo_enriched ! 4 \<in> set (this_week demo_now demo_enriched)
   \<and> this_week demo_now demo_enriched \<noteq>
       filter (\<lambda>e. case timestamp (fst e) of None \<Rightarrow> False
                   | Some t \<Rightarrow> demo_now - timedelta_days 7 \<le> t \<and> t \<le> demo_now) demo_enriched
   \<and> snd (task3_top_songs_this_week demo_now (\<lambda>_. 0) demo_enriched demo_songs Map.empty) =
       [(Some ''S002'', Some ''B'', Some ''Y'', 2), (Some ''S003'', Some ''C'', Some ''Z'', 2)]
   \<and> length (filter (\<lambda>e. log_row.song_id (fst e) = Some ''S003'' \<and>
         (case timestamp (fst e) of None \<Rightarrow> False
          | Some t \<Rightarrow> demo_now - timedelta_days 7 \<le> t \<and> t \<le> demo_now)) demo_enriched) = 1"
proof -
  have a: "timestamp (fst (demo_enriched ! 4)) = Some 1742889600000000"
    by (simp add: demo_enriched_def demo_logs_def)
  have b: "demo_now < 1742889600000000"
    by (simp add: demo_now_def)
  have w: "this_week demo_now demo_enriched =
      [demo_enriched ! 0, demo_enriched ! 1, demo_enriched ! 3, demo_enriched ! 4]"
    by (simp add: this_week_def timedelta_days_def demo_now_def demo_enriched_def demo_logs_def)
  have c: "demo_enriched ! 4 \<in> set (this_week demo_now demo_enriched)"
    by (simp add: w)
  have f: "filter (\<lambda>e. case timestamp (fst e) of None \<Rightarrow> False
                   | Some t \<Rightarrow> demo_now - timedelta_days 7 \<le> t \<and> t \<le> demo_now) demo_enriched =
      [demo_enriched ! 0, demo_enriched ! 1, demo_enriched ! 3]"
    by (simp add: timedelta_days_def demo_now_def demo_enriched_def demo_logs_def)
  have d: "this_week demo_now demo_enriched \<noteq>
       filter (\<lambda>e. case timestamp (fst e) of None \<Rightarrow> False
                   | Some t \<Rightarrow> demo_now - timedelta_days 7 \<le> t \<and> t \<le> demo_now) demo_enriched"
    unfolding w f by simp
  have e: "snd (task3_top_songs_this_week demo_now (\<lambda>_. 0) demo_enriched demo_songs Map.empty) =
       [(Some ''S002'', Some ''B'', Some ''Y'', 2), (Some ''S003'', Some ''C'', Some ''Z'', 2)]"
    unfolding task3_rows by (rule demo_top_songs)
  have g: "length (filter (\<lambda>e. log_row.song_id (fst e) = Some ''S003'' \<and>
         (case timestamp (fst e) of None \<Rightarrow> False
          | Some t \<Rightarrow> demo_now - timedelta_days 7 \<le> t \<and> t \<le> demo_now)) demo_enriched) = 1"
    by (simp add: timedelta_days_def demo_now_def demo_enriched_def demo_logs_def)
  from a b c d e g show ?thesis by (intro conjI)
qed

section \<open>A failed run and the output directory\<close>

lemma prefix_pair: "prefix q [a, b] \<longleftrightarrow> q = [] \<or> q = [a] \<or> q = [a, b]"
proof (cases q)
  case Nil
  then show ?thesis by simp
next
  case (Cons x xs)
  then show ?thesis by (cases xs) auto
qed

lemma makedirs_pair:
  "makedirs [b, d] f q = (if (q = [b] \<or> q = [b, d]) \<and> f q = None then Some Dir else f q)"
  by (auto simp: makedirs_def prefix_pair)

lemma foldl_makedirs:
  "foldl (\<lambda>f d. makedirs [b, d] f) f0 ds q =
     (if f0 q = None \<and> ((q = [b] \<and> ds \<noteq> []) \<or> (\<exists>d \<in> set ds. q = [b, d])) then Some Dir else f0 q)"
proof (induction ds arbitrary: q rule: rev_induct)
  case Nil
  then show ?case by simp
next
  case (snoc d ds)
  let ?f = "foldl (\<lambda>f d. makedirs [b, d] f) f0 ds"
  have "foldl (\<lambda>f d. makedirs [b, d] f) f0 (ds @ [d]) q = makedirs [b, d] ?f q"
    by simp
  also have "\<dots> = (if (q = [b] \<or> q = [b, d]) \<and> ?f q = None then Some Dir else ?f q)"
    by (rule makedirs_pair)
  also have "\<dots> = (if f0 q = None \<and> ((q = [b] \<and> ds @ [d] \<noteq> []) \<or> (\<exists>d' \<in> set (ds @ [d]). q = [b, d']))
      then Some Dir else f0 q)"
    unfolding snoc.IH by auto
  finally show ?case .
qed

lemma prepare_existing:
  assumes "fs0 [b] = Some Dir"
  shows "prepare_output_directory b fs0 =
    Inr (\<lambda>q. if prefix [b] q
              then (if q = [b] \<or> (\<exists>d \<in> set subdirs. q = [b, d]) then Some Dir else None)
              else fs0 q)"
proof -
  have ne: "subdirs \<noteq> []" by (simp add: subdirs_def)
  have "foldl (\<lambda>f d. makedirs [b, d] f) (rmtree [b] fs0) subdirs q =
      (if prefix [b] q
       then (if q = [b] \<or> (\<exists>d \<in> set subdirs. q = [b, d]) then Some Dir else None)
       else fs0 q)" for q
    unfolding foldl_makedirs rmtree_def using ne by auto
  then have "foldl (\<lambda>f d. makedirs [b, d] f) (rmtree [b] fs0) subdirs =
      (\<lambda>q. if prefix [b] q
              then (if q = [b] \<or> (\<exists>d \<in> set subdirs. q = [b, d]) then Some Dir else None)
              else fs0 q)"
    by (rule ext)
  with assms show ?thesis
    by (simp add: prepare_output_directory_def)
qed

lemma load_data_missing:
  "(\<exists>e. load_data to_ts to_i src = Inl e) \<longleftrightarrow> listening_logs src = None \<or> songs_metadata src = None"
  by (auto simp: load_data_def Let_def split: option.splits)

lemma load_data_error:
  "load_data to_ts to_i src = Inl e \<Longrightarrow>
   e = MissingSource ''data/listening_logs.csv'' \<or> e = MissingSource ''data/songs_metadata.csv''"
  by (auto simp: load_data_def Let_def split: option.splits)

text \<open>
  C5, as the code has it (a run that fails on a missing source). The output directory is
  prepared before the sources are read. So when an input source is missing and the output
  directory exists, the run ends with the error for that source after the directory has
  been cleared: no file stands anywhere under \<open>output\<close>, exactly the directory and its
  seven subdirectories exist there, and nothing outside \<open>output\<close> has changed. No artifact
  of the failed run is written, and no artifact of an earlier run is left.
\<close>

theorem failed_run_clears_output:
  assumes "listening_logs src = None \<or> songs_metadata src = None"
    and "fs0 [''output''] = Some Dir"
  shows "(snd (main ev src fs0) = Inl (MissingSource ''data/listening_logs.csv'') \<or>
          snd (main ev src fs0) = Inl (MissingSource ''data/songs_metadata.csv''))
         \<and> (\<forall>p a. prefix [''output''] p \<longrightarrow> fst (main ev src fs0) p \<noteq> Some (File a))
         \<and> (\<forall>p. prefix [''output''] p \<longrightarrow>
               fst (main ev src fs0) p =
                 (if p = [''output''] \<or> (\<exists>d \<in> set subdirs. p = [''output'', d]) then Some Dir else None))
         \<and> (\<forall>p. \<not> prefix [''output''] p \<longrightarrow> fst (main ev src fs0) p = fs0 p)"
proof -
  from assms(1) have "\<exists>e. load_data (to_timestamp ev) (to_int ev) src = Inl e"
    by (simp only: load_data_missing)
  then obtain e where e: "load_data (to_timestamp ev) (to_int ev) src = Inl e" ..
  let ?fs1 = "\<lambda>q. if prefix [''output''] q
              then (if q = [''output''] \<or> (\<exists>d \<in> set subdirs. q = [''output'', d]) then Some Dir else None)
              else fs0 q"
  have m: "main ev src fs0 = (?fs1, Inl e)"
    using prepare_existing [of fs0 "''output''", OF assms(2)] by (simp add: main_def e)
  have a: "snd (main ev src fs0) = Inl (MissingSource ''data/listening_logs.csv'') \<or>
          snd (main ev src fs0) = Inl (MissingSource ''data/songs_metadata.csv'')"
    using load_data_error [OF e] by (auto simp: m)
  have b: "\<forall>p a. prefix [''output''] p \<longrightarrow> fst (main ev src fs0) p \<noteq> Some (File a)"
    unfolding m fst_conv by simp
  have c: "\<forall>p. prefix [''output''] p \<longrightarrow>
               fst (main ev src fs0) p =
                 (if p = [''output''] \<or> (\<exists>d \<in> set subdirs. p = [''output'', d]) then Some Dir else None)"
    unfolding m fst_conv by simp
  have d: "\<forall>p. \<not> prefix [''output''] p \<longrightarrow> fst (main ev src fs0) p = fs0 p"
    unfolding m fst_conv by simp
  from a b c d show ?thesis by (intro conjI)
qed

lemma main_missing_logs:
  "main demo_env missing_sources prior_fs =
     (\<lambda>q. if prefix [''output''] q
          then (if q = [''output''] \<or> (\<exists>d \<in> set subdirs. q = [''output'', d]) then Some Dir else None)
          else prior_fs q,
      Inl (MissingSource ''data/listening_logs.csv''))"
proof -
  have d: "prior_fs [''output''] = Some Dir"
    by (simp add: prior_fs_def prior_part_def)
  have e: "load_data (to_timestamp demo_env) (to_int demo_env) missing_sources = Inl (MissingSource ''data/listening_logs.csv'')"
    by (simp add: load_data_def missing_sources_def)
  show ?thesis
    using prepare_existing [of prior_fs "''output''", OF d] by (simp add: main_def e)
qed

lemma prior_part_cleared:
  "(if prefix [''output''] prior_part
    then (if prior_part = [''output''] \<or> (\<exists>d \<in> set subdirs. prior_part = [''output'', d]) then Some Dir else None)
    else prior_fs prior_part) = None"
  by (simp add: prior_part_def)

text \<open>A run without its listening logs, started over the output of an earlier run: the
  run fails, and the earlier artifact is gone.\<close>

theorem failed_run_counterexample:
  "prior_fs [''output''] = Some Dir
   \<and> prior_fs prior_part = Some (File (FavoriteGenres [(Some ''U1'', Some ''Pop'', 2)]))
   \<and> snd (main demo_env missing_sources prior_fs) = Inl (MissingSource ''data/listening_logs.csv'')
   \<and> fst (main demo_env missing_sources prior_fs) prior_part = None"
proof -
  have a: "prior_fs [''output''] = Some Dir"
    by (simp add: prior_fs_def prior_part_def)
  have b: "prior_fs prior_part = Some (File (FavoriteGenres [(Some ''U1'', Some ''Pop'', 2)]))"
    by (simp add: prior_fs_def)
  have c: "snd (main demo_env missing_sources prior_fs) = Inl (MissingSource ''data/listening_logs.csv'')"
    by (simp only: main_missing_logs snd_conv)
  have d: "fst (main demo_env missing_sources prior_fs) prior_part = None"
    unfolding main_missing_logs fst_conv by (rule prior_part_cleared)
  from a b c d show ?thesis by (intro conjI)
qed

theorem failed_run_clears_output_witness:
  "listening_logs missing_sources = None
   \<and> prior_fs [''output''] = Some Dir
   \<and> prefix [''output''] prior_part
   \<and> fst (main demo_env missing_sources prior_fs) prior_part = None
   \<and> fst (main demo_env missing_sources prior_fs) [''output'', ''enriched_logs''] = Some Dir"
proof -
  have a: "listening_logs missing_sources = None"
    by (simp add: missing_sources_def)
  have b: "prior_fs [''output''] = Some Dir"
    by (simp add: prior_fs_def prior_part_def)
  have p: "prefix [''output''] prior_part" and q: "prefix [''output''] [''output'', ''enriched_logs'']"
    by (simp_all add: prior_part_def)
  from a have a': "listening_logs missing_sources = None \<or> songs_metadata missing_sources = None" ..
  note t = failed_run_clears_output [of missing_sources prior_fs demo_env, OF a' b]
  from t have c: "\<forall>p. prefix [''output''] p \<longrightarrow>
               fst (main demo_env missing_sources prior_fs) p =
                 (if p = [''output''] \<or> (\<exists>d \<in> set subdirs. p = [''output'', d]) then Some Dir else None)"
    by (elim conjE)
  from c p have "fst (main demo_env missing_sources prior_fs) prior_part =
      (if prior_part = [''output''] \<or> (\<exists>d \<in> set subdirs. prior_part = [''output'', d]) then Some Dir else None)"
    by (elim allE impE)
  then have d: "fst (main demo_env missing_sources prior_fs) prior_part = None"
    by (simp add: prior_part_def)
  from c q have "fst (main demo_env missing_sources prior_fs) [''output'', ''enriched_logs''] =
      (if [''output'', ''enriched_logs''] = [''output''] \<or>
          (\<exists>d \<in> set subdirs. [''output'', ''enriched_logs''] = [''output'', d]) then Some Dir else None)"
    by (elim allE impE)
  then have e: "fst (main demo_env missing_sources prior_fs) [''output'', ''enriched_logs''] = Some Dir"
    by (simp add: subdirs_def)
  from a b p d e show ?thesis by (intro conjI)
qed

section \<open>Runs that complete\<close>

lemma write_overwrite_apply:
  "write_overwrite p a fs q =
     (if q = p @ [''part-00000''] then Some (File a)
      else if q = p then Some Dir
      else if prefix p q then None else fs q)"
  by (auto simp: write_overwrite_def rmtree_def)

lemma prepare_ok:
  assumes "\<forall>a. fs0 [b] \<noteq> Some (File a)"
  shows "\<exists>fs1. prepare_output_directory b fs0 = Inr fs1"
proof (cases "fs0 [b]")
  case None
  then show ?thesis by (simp add: prepare_output_directory_def)
next
  case (Some n)
  with assms have "n = Dir" by (cases n) auto
  with Some show ?thesis by (simp add: prepare_output_directory_def)
qed

lemma groupBy_count_Nil: "groupBy_count key [] = []"
  by (simp add: groupBy_count_def)

lemma orderBy_desc_Nil: "orderBy_desc tie key [] = []"
  by (simp add: orderBy_desc_def)

lemma row_number_over_Nil: "row_number_over part ord [] = []"
  by (simp add: row_number_over_def)

lemma user_favorite_genres_Nil: "user_favorite_genres tie [] = []"
  by (simp add: user_favorite_genres_def user_genre_counts_def groupBy_count_Nil row_number_over_Nil)

lemma avg_listen_time_Nil: "avg_listen_time tie [] = []"
  by (simp add: avg_listen_time_def orderBy_desc_Nil)

lemma top_songs_Nil: "top_songs current_date tie [] = []"
  by (simp add: top_songs_def this_week_def song_play_counts_def groupBy_count_Nil orderBy_desc_Nil)

lemma sad_song_listeners_Nil: "sad_song_listeners tie [] = []"
  by (simp add: sad_song_listeners_def mood_counts_def groupBy_count_Nil row_number_over_Nil)

lemma no_listeners_no_recommendations:
  "sad_song_listeners tie enriched_logs = [] \<Longrightarrow>
   final_recommendations tie rnd enriched_logs songs_df = []"
  by (simp add: final_recommendations_def Let_def)

lemma loyalty_scores_Nil: "loyalty_scores tie [] = []"
  by (simp add: loyalty_scores_def user_max_genre_def user_genre_plays_def max_over_def
      groupBy_count_Nil orderBy_desc_Nil)

lemma night_owl_users_Nil: "night_owl_users h tie [] = []"
  by (simp add: night_owl_users_def groupBy_count_Nil orderBy_desc_Nil)

lemma csv_logs_empty: "length lines \<le> 1 \<Longrightarrow> csv_logs to_ts to_i lines = []"
proof -
  assume "length lines \<le> 1"
  moreover have "length (filter (\<lambda>l. \<not> blank_line l) lines) \<le> length lines"
    by (rule length_filter_le)
  ultimately have "length (filter (\<lambda>l. \<not> blank_line l) lines) \<le> 1"
    by (rule le_trans [rotated])
  then show ?thesis
    by (simp add: csv_logs_def data_lines_def)
qed

lemma main_present:
  assumes "listening_logs src = Some ll" and "songs_metadata src = Some sl"
    and "prepare_output_directory ''output'' fs0 = Inr fs1"
  shows "main ev src fs0 =
    (let logs_df = csv_logs (to_timestamp ev) (to_int ev) ll; songs_df = csv_songs sl;
         enriched_logs = join_inner logs_df songs_df
     in (write_overwrite [''output'', ''enriched_logs''] (EnrichedLogs enriched_logs)
        (write_overwrite [''output'', ''night_owl_users'']
            (NightOwls (night_owl_users (hour ev) (tie_night ev) logs_df))
        (write_overwrite [''output'', ''genre_loyalty_scores'']
            (LoyaltyScores (loyalty_scores (tie_loyalty ev) enriched_logs))
        (write_overwrite [''output'', ''happy_recommendations'']
            (Recommendations (final_recommendations (tie_mood ev) (rand ev) enriched_logs songs_df))
        (write_overwrite [''output'', ''top_songs_this_week'']
            (TopSongs (top_songs (now ev) (tie_top ev) enriched_logs))
        (write_overwrite [''output'', ''avg_listen_time_per_song'']
            (AvgListenTime (avg_listen_time (tie_avg ev) logs_df))
        (write_overwrite [''output'', ''user_favorite_genres'']
            (FavoriteGenres (user_favorite_genres (tie_genre ev) enriched_logs)) fs1)))))),
      Inr ()))"
  by (simp add: main_def assms load_data_def Let_def task1_user_favorite_genres_def
      task2_avg_listen_time_per_song_def task3_top_songs_this_week_def
      task4_happy_song_recommendations_def task5_genre_loyalty_scores_def
      task6_night_owl_users_def save_enriched_logs_def)

lemma main_succeeds:
  assumes "listening_logs src = Some ll" and "songs_metadata src = Some sl"
    and "\<forall>a. fs0 [''output''] \<noteq> Some (File a)"
  shows "snd (main ev src fs0) = Inr ()"
proof -
  from prepare_ok [of fs0 "''output''", OF assms(3)] obtain fs1 where "prepare_output_directory ''output'' fs0 = Inr fs1" ..
  from main_present [OF assms(1,2) this] show ?thesis by (simp add: Let_def)
qed

lemma main_empty_logs:
  assumes "listening_logs src = Some ll" and "length ll \<le> 1" and "songs_metadata src = Some sl"
    and "prepare_output_directory ''output'' fs0 = Inr fs1"
  shows "fst (main ev src fs0) =
        write_overwrite [''output'', ''enriched_logs''] (EnrichedLogs [])
        (write_overwrite [''output'', ''night_owl_users''] (NightOwls [])
        (write_overwrite [''output'', ''genre_loyalty_scores''] (LoyaltyScores [])
        (write_overwrite [''output'', ''happy_recommendations''] (Recommendations [])
        (write_overwrite [''output'', ''top_songs_this_week''] (TopSongs [])
        (write_overwrite [''output'', ''avg_listen_time_per_song''] (AvgListenTime [])
        (write_overwrite [''output'', ''user_favorite_genres''] (FavoriteGenres []) fs1))))))"
  unfolding main_present [OF assms(1,3,4)] Let_def csv_logs_empty [OF assms(2)] join_inner_Nil
    user_favorite_genres_Nil avg_listen_time_Nil top_songs_Nil loyalty_scores_Nil night_owl_users_Nil
    no_listeners_no_recommendations [OF sad_song_listeners_Nil] fst_conv ..

text \<open>
  C9 (empty input). When the listening logs hold no data line (the header alone, or
  nothing), both sources exist and \<open>output\<close> is not a file, the run succeeds and every one
  of the seven artifacts is written, each with no rows. And whenever no listener
  qualifies for recommendations, task 4 still returns, with no rows, and writes its
  artifact with no rows.
\<close>

theorem empty_input_outputs:
  "(listening_logs src = Some ll \<and> length ll \<le> 1 \<and> songs_metadata src = Some sl \<and>
      (\<forall>a. fs0 [''output''] \<noteq> Some (File a)) \<longrightarrow>
      snd (main ev src fs0) = Inr () \<and>
      fst (main ev src fs0) [''output'', ''user_favorite_genres'', ''part-00000''] =
        Some (File (FavoriteGenres [])) \<and>
      fst (main ev src fs0) [''output'', ''avg_listen_time_per_song'', ''part-00000''] =
        Some (File (AvgListenTime [])) \<and>
      fst (main ev src fs0) [''output'', ''top_songs_this_week'', ''part-00000''] =
        Some (File (TopSongs [])) \<and>
      fst (main ev src fs0) [''output'', ''happy_recommendations'', ''part-00000''] =
        Some (File (Recommendations [])) \<and>
      fst (main ev src fs0) [''output'', ''genre_loyalty_scores'', ''part-00000''] =
        Some (File (LoyaltyScores [])) \<and>
      fst (main ev src fs0) [''output'', ''night_owl_users'', ''part-00000''] =
        Some (File (NightOwls [])) \<and>
      fst (main ev src fs0) [''output'', ''enriched_logs'', ''part-00000''] =
        Some (File (EnrichedLogs [])))
   \<and> (sad_song_listeners tie enriched_logs = [] \<longrightarrow>
        snd (task4_happy_song_recommendations tie rnd enriched_logs songs_df fs) = [] \<and>
        fst (task4_happy_song_recommendations tie rnd enriched_logs songs_df fs)
          [''output'', ''happy_recommendations'', ''part-00000''] = Some (File (Recommendations [])))"
proof (intro conjI impI)
  assume h: "listening_logs src = Some ll \<and> length ll \<le> 1 \<and> songs_metadata src = Some sl \<and>
      (\<forall>a. fs0 [''output''] \<noteq> Some (File a))"
  then have l: "listening_logs src = Some ll" and e: "length ll \<le> 1"
    and s: "songs_metadata src = Some sl" and o: "\<forall>a. fs0 [''output''] \<noteq> Some (File a)"
    by simp_all
  from prepare_ok [of fs0 "''output''", OF o] obtain fs1 where p: "prepare_output_directory ''output'' fs0 = Inr fs1" ..
  note m = main_empty_logs [OF l e s p, of ev]
  show "snd (main ev src fs0) = Inr ()"
    by (rule main_succeeds [of src ll sl fs0 ev, OF l s o])
  show "fst (main ev src fs0) [''output'', ''user_favorite_genres'', ''part-00000''] =
        Some (File (FavoriteGenres []))"
    unfolding m by (simp add: write_overwrite_apply)
  show "fst (main ev src fs0) [''output'', ''avg_listen_time_per_song'', ''part-00000''] =
        Some (File (AvgListenTime []))"
    unfolding m by (simp add: write_overwrite_apply)
  show "fst (main ev src fs0) [''output'', ''top_songs_this_week'', ''part-00000''] =
        Some (File (TopSongs []))"
    unfolding m by (simp add: write_overwrite_apply)
  show "fst (main ev src fs0) [''output'', ''happy_recommendations'', ''part-00000''] =
        Some (File (Recommendations []))"
    unfolding m by (simp add: write_overwrite_apply)
  show "fst (main ev src fs0) [''output'', ''genre_loyalty_scores'', ''part-00000''] =
        Some (File (LoyaltyScores []))"
    unfolding m by (simp add: write_overwrite_apply)
  show "fst (main ev src fs0) [''output'', ''night_owl_users'', ''part-00000''] =
        Some (File (NightOwls []))"
    unfolding m by (simp add: write_overwrite_apply)
  show "fst (main ev src fs0) [''output'', ''enriched_logs'', ''part-00000''] =
        Some (File (EnrichedLogs []))"
    unfolding m by (simp add: write_overwrite_apply)
next
  assume c: "sad_song_listeners tie enriched_logs = []"
  show "snd (task4_happy_song_recommendations tie rnd enriched_logs songs_df fs) = []"
    by (simp add: task4_happy_song_recommendations_def Let_def no_listeners_no_recommendations [OF c])
  show "fst (task4_happy_song_recommendations tie rnd enriched_logs songs_df fs)
          [''output'', ''happy_recommendations'', ''part-00000''] = Some (File (Recommendations []))"
    by (simp add: task4_happy_song_recommendations_def Let_def no_listeners_no_recommendations [OF c]
        write_overwrite_apply)
qed

lemma demo_tied_no_listeners: "sad_song_listeners (\<lambda>_. 0) demo_tied = []"
  by code_simp

theorem empty_input_outputs_witness:
  "listening_logs empty_sources = Some (take 1 demo_log_lines)
   \<and> length (take 1 demo_log_lines) \<le> 1
   \<and> songs_metadata empty_sources = Some demo_song_lines
   \<and> snd (main demo_env empty_sources Map.empty) = Inr ()
   \<and> fst (main demo_env empty_sources Map.empty) [''output'', ''happy_recommendations'', ''part-00000''] =
       Some (File (Recommendations []))
   \<and> fst (main demo_env empty_sources Map.empty) [''output'', ''enriched_logs'', ''part-00000''] =
       Some (File (EnrichedLogs []))
   \<and> sad_song_listeners (\<lambda>_. 0) demo_tied = []
   \<and> snd (task4_happy_song_recommendations (\<lambda>_. 0) (\<lambda>_ _. 0) demo_tied demo_songs Map.empty) = []"
proof -
  have l: "listening_logs empty_sources = Some (take 1 demo_log_lines)"
    and s: "songs_metadata empty_sources = Some demo_song_lines"
    by (simp_all add: empty_sources_def)
  have n: "length (take 1 demo_log_lines) \<le> 1" by simp
  have o: "\<forall>a. (Map.empty :: fs) [''output''] \<noteq> Some (File a)" by simp
  note t = empty_input_outputs [of empty_sources "take 1 demo_log_lines" demo_song_lines Map.empty
      demo_env "\<lambda>_. 0" demo_tied "\<lambda>_ _. 0" demo_songs Map.empty]
  from l n s o have h: "listening_logs empty_sources = Some (take 1 demo_log_lines) \<and>
      length (take 1 demo_log_lines) \<le> 1 \<and> songs_metadata empty_sources = Some demo_song_lines \<and>
      (\<forall>a. (Map.empty :: fs) [''output''] \<noteq> Some (File a))"
    by (intro conjI)
  from t have t1: "listening_logs empty_sources = Some (take 1 demo_log_lines) \<and>
      length (take 1 demo_log_lines) \<le> 1 \<and> songs_metadata empty_sources = Some demo_song_lines \<and>
      (\<forall>a. (Map.empty :: fs) [''output''] \<noteq> Some (File a)) \<longrightarrow>
      snd (main demo_env empty_sources Map.empty) = Inr () \<and>
      fst (main demo_env empty_sources Map.empty) [''output'', ''user_favorite_genres'', ''part-00000''] =
        Some (File (FavoriteGenres [])) \<and>
      fst (main demo_env empty_sources Map.empty) [''output'', ''avg_listen_time_per_song'', ''part-00000''] =
        Some (File (AvgListenTime [])) \<and>
      fst (main demo_env empty_sources Map.empty) [''output'', ''top_songs_this_week'', ''part-00000''] =
        Some (File (TopSongs [])) \<and>
      fst (main demo_env empty_sources Map.empty) [''output'', ''happy_recommendations'', ''part-00000''] =
        Some (File (Recommendations [])) \<and>
      fst (main demo_env empty_sources Map.empty) [''output'', ''genre_loyalty_scores'', ''part-00000''] =
        Some (File (LoyaltyScores [])) \<and>
      fst (main demo_env empty_sources Map.empty) [''output'', ''night_owl_users'', ''part-00000''] =
        Some (File (NightOwls [])) \<and>
      fst (main demo_env empty_sources Map.empty) [''output'', ''enriched_logs'', ''part-00000''] =
        Some (File (EnrichedLogs []))"
    by (rule conjunct1)
  note r = mp [OF t1 h]
  from r have a: "snd (main demo_env empty_sources Map.empty) = Inr ()"
    by (elim conjE)
  from r have b: "fst (main demo_env empty_sources Map.empty) [''output'', ''happy_recommendations'', ''part-00000''] =
       Some (File (Recommendations []))"
    by (elim conjE)
  from r have c: "fst (main demo_env empty_sources Map.empty) [''output'', ''enriched_logs'', ''part-00000''] =
       Some (File (EnrichedLogs []))"
    by (elim conjE)
  from t have t2: "sad_song_listeners (\<lambda>_. 0) demo_tied = [] \<longrightarrow>
        snd (task4_happy_song_recommendations (\<lambda>_. 0) (\<lambda>_ _. 0) demo_tied demo_songs Map.empty) = [] \<and>
        fst (task4_happy_song_recommendations (\<lambda>_. 0) (\<lambda>_ _. 0) demo_tied demo_songs Map.empty)
          [''output'', ''happy_recommendations'', ''part-00000''] = Some (File (Recommendations []))"
    by (rule conjunct2)
  from mp [OF t2 demo_tied_no_listeners]
  have d: "snd (task4_happy_song_recommendations (\<lambda>_. 0) (\<lambda>_ _. 0) demo_tied demo_songs Map.empty) = []"
    by (rule conjunct1)
  from l n s a b c demo_tied_no_listeners d show ?thesis by (intro conjI)
qed

section \<open>Rows that do not convert\<close>








end
